theory Spec2Isabelle
  imports Complex_Main "HOL-Library.Log_Nat" "HOL-Library.Sublist"
begin

section \<open>Python values\<close>

text \<open>
  The configuration loader (\<^verbatim>\<open>config/config.py\<close>) and the credential resolver
  (\<^verbatim>\<open>src/crypto_arb_bot/credentials.py\<close>) are dynamically typed: the parsed TOML
  document is a \<^verbatim>\<open>Dict[str, Any]\<close>, and the checks of the source are
  \<^verbatim>\<open>isinstance\<close> tests, truthiness tests and comparisons on such values.

  A Python str is a sequence of code points. The model represents it by a \<open>string\<close>,
  the bytes of its UTF-8 encoding (a lone surrogate by its three-byte form): emptiness,
  equality and concatenation of strs are those of the byte strings, and a str that
  occurs in another occurs in it as a byte string. What depends on the code points
  themselves is taken as a parameter where the source uses it.

  A Python float is an IEEE double. Its finite values are rationals; the model keeps the
  exact rational value, and the three special values that TOML can write (\<^verbatim>\<open>inf\<close>,
  \<^verbatim>\<open>-inf\<close>, \<^verbatim>\<open>nan\<close>). \<open>Finite 0\<close> stands for both zeros, which no comparison of
  Python tells apart.
\<close>

datatype pyfloat = Finite rat | PosInf | NegInf | NaN

datatype pyval =
    PNone
  | PBool bool
  | PInt int
  | PFloat pyfloat
  | PStr string
  | PList "pyval list"
  | PDict "(string \<times> pyval) list"
  | PDatetime string

datatype error =
    ConfigError string
  | CredentialError string
  | AssertionError string
  | OverflowError string
  | TypeError string
  | KeyringError string
  | UnicodeEncodeError string

subsection \<open>isinstance, truthiness, comparison\<close>

fun isinstance_list :: "pyval \<Rightarrow> bool" where
  "isinstance_list (PList xs) = True"
| "isinstance_list v = False"

text \<open>\<^verbatim>\<open>bool\<close> is a subclass of \<^verbatim>\<open>int\<close>: \<^verbatim>\<open>isinstance(True, int)\<close> holds.\<close>

fun isinstance_int :: "pyval \<Rightarrow> bool" where
  "isinstance_int (PInt i) = True"
| "isinstance_int (PBool b) = True"
| "isinstance_int v = False"

fun isinstance_float :: "pyval \<Rightarrow> bool" where
  "isinstance_float (PFloat x) = True"
| "isinstance_float v = False"

fun isinstance_str :: "pyval \<Rightarrow> bool" where
  "isinstance_str (PStr s) = True"
| "isinstance_str v = False"

fun float_is_zero :: "pyfloat \<Rightarrow> bool" where
  "float_is_zero (Finite r) = (r = 0)"
| "float_is_zero x = False"

text \<open>The truth value of an object, as \<^verbatim>\<open>not v\<close> and \<^verbatim>\<open>a or b\<close> test it.\<close>

fun truthy :: "pyval \<Rightarrow> bool" where
  "truthy PNone = False"
| "truthy (PBool b) = b"
| "truthy (PInt i) = (i \<noteq> 0)"
| "truthy (PFloat x) = (\<not> float_is_zero x)"
| "truthy (PStr s) = (s \<noteq> [])"
| "truthy (PList xs) = (xs \<noteq> [])"
| "truthy (PDict kvs) = (kvs \<noteq> [])"
| "truthy (PDatetime s) = True"

text \<open>
  The numeric value of an int, a bool (\<^verbatim>\<open>True\<close> is 1, \<^verbatim>\<open>False\<close> is 0) or a float.
  Python compares an int with a float by their exact values, so the value of an int is
  its own rational, not its rounding to a double.
\<close>

fun numeric :: "pyval \<Rightarrow> pyfloat option" where
  "numeric (PInt i) = Some (Finite (of_int i))"
| "numeric (PBool b) = Some (Finite (if b then 1 else 0))"
| "numeric (PFloat x) = Some x"
| "numeric v = None"

text \<open>IEEE order: every comparison with \<^verbatim>\<open>nan\<close> is false.\<close>

fun float_le :: "pyfloat \<Rightarrow> pyfloat \<Rightarrow> bool" where
  "float_le NaN y = False"
| "float_le x NaN = False"
| "float_le NegInf y = True"
| "float_le x PosInf = True"
| "float_le (Finite a) (Finite b) = (a \<le> b)"
| "float_le x y = False"

fun float_lt :: "pyfloat \<Rightarrow> pyfloat \<Rightarrow> bool" where
  "float_lt NaN y = False"
| "float_lt x NaN = False"
| "float_lt PosInf y = False"
| "float_lt x NegInf = False"
| "float_lt NegInf y = True"
| "float_lt x PosInf = True"
| "float_lt (Finite a) (Finite b) = (a < b)"

text \<open>
  \<^verbatim>\<open>a <= b\<close> and \<^verbatim>\<open>a < b\<close> on numbers. On other values Python raises TypeError; the
  source only compares behind an \<^verbatim>\<open>isinstance\<close> test whose \<^verbatim>\<open>or\<close> short-circuits,
  so that case is never reached there and the model gives it the value \<open>False\<close>.
\<close>

definition py_le :: "pyval \<Rightarrow> pyval \<Rightarrow> bool" where
  "py_le a b = (case (numeric a, numeric b) of (Some x, Some y) \<Rightarrow> float_le x y | _ \<Rightarrow> False)"

definition py_lt :: "pyval \<Rightarrow> pyval \<Rightarrow> bool" where
  "py_lt a b = (case (numeric a, numeric b) of (Some x, Some y) \<Rightarrow> float_lt x y | _ \<Rightarrow> False)"

subsection \<open>float()\<close>

text \<open>
  \<^verbatim>\<open>float(i)\<close> of an int. A double has a mantissa of 53 bits: an int of at most 53
  bits is converted exactly; a longer one is rounded to the nearest multiple of
  \<open>2 ^ e\<close>, where \<open>e\<close> is the number of bits it has beyond 53, ties going to the even
  mantissa. When the rounded value does not fit the exponent range of a double, that
  is when it reaches \<open>2 ^ 1024\<close>, Python raises OverflowError.
\<close>

definition round_to_53_bits :: "int \<Rightarrow> int" where
  "round_to_53_bits a =
     (let e = nat (bitlen a - 53);
          q = a div 2 ^ e;
          r = a mod 2 ^ e;
          h = 2 ^ (e - 1);
          q' = (if h < r \<or> (r = h \<and> odd q) then q + 1 else q)
      in q' * 2 ^ e)"

definition int_to_float :: "int \<Rightarrow> error + pyfloat" where
  "int_to_float i =
     (if bitlen \<bar>i\<bar> \<le> 53 then Inr (Finite (of_int i))
      else if 2 ^ 1024 \<le> round_to_53_bits \<bar>i\<bar> then
        Inl (OverflowError ''int too large to convert to float'')
      else Inr (Finite (of_int (sgn i * round_to_53_bits \<bar>i\<bar>))))"

text \<open>
  \<^verbatim>\<open>float(v)\<close>. The source calls it on values that passed
  \<^verbatim>\<open>isinstance(v, (int, float))\<close> only; the other values (a string would be parsed) are
  never passed and are given TypeError here.
\<close>

fun py_float :: "pyval \<Rightarrow> error + pyfloat" where
  "py_float (PFloat x) = Inr x"
| "py_float (PInt i) = int_to_float i"
| "py_float (PBool b) = Inr (Finite (if b then 1 else 0))"
| "py_float v = Inl (TypeError ''float() argument must be a string or a real number'')"

section \<open>The configuration loader\<close>

text \<open>
  \<^verbatim>\<open>@dataclass(frozen=True) class Config\<close>. The dataclass does not convert its
  arguments: \<^verbatim>\<open>market_pairs\<close>, \<^verbatim>\<open>max_cycles\<close> and \<^verbatim>\<open>max_retries\<close> hold the very
  objects read from the document, the other two the results of \<^verbatim>\<open>float()\<close>.
\<close>

record Config =
  market_pairs :: pyval
  max_cycles :: pyval
  fetch_interval :: pyfloat
  min_spread :: pyfloat
  max_retries :: pyval

text \<open>\<^verbatim>\<open>data.get(key)\<close>: the value, or \<^verbatim>\<open>None\<close> for a missing key.\<close>

definition dict_get :: "(string \<rightharpoonup> pyval) \<Rightarrow> string \<Rightarrow> pyval" where
  "dict_get data k = (case data k of None \<Rightarrow> PNone | Some v \<Rightarrow> v)"

text \<open>
  \<^verbatim>\<open>_validate_config\<close> (an Isabelle name cannot start with an underscore). The five
  checks run in the order of the source and the first that fails raises; the two
  \<^verbatim>\<open>float()\<close> calls are evaluated after all checks, while the arguments of
  \<^verbatim>\<open>Config(...)\<close> are built.
\<close>

definition validate_config :: "(string \<rightharpoonup> pyval) \<Rightarrow> error + Config" where
  "validate_config data =
     (let pairs = dict_get data ''market_pairs'';
          cycles = dict_get data ''max_cycles'';
          interval = dict_get data ''fetch_interval'';
          spread = dict_get data ''min_spread'';
          retries = dict_get data ''max_retries''
      in
      if \<not> isinstance_list pairs \<or> \<not> truthy pairs then
        Inl (ConfigError ''market_pairs must be a non-empty list'')
      else if \<not> isinstance_int cycles \<or> \<not> (py_le (PInt 1) cycles \<and> py_le cycles (PInt 10000)) then
        Inl (ConfigError ''max_cycles must be an integer between 1 and 10000'')
      else if \<not> (isinstance_int interval \<or> isinstance_float interval) \<or> py_le interval (PInt 0) then
        Inl (ConfigError ''fetch_interval must be a positive number'')
      else if \<not> (isinstance_int spread \<or> isinstance_float spread) \<or> py_lt spread (PInt 0) then
        Inl (ConfigError ''min_spread must be >= 0'')
      else if \<not> isinstance_int retries \<or> \<not> (py_le (PInt 1) retries \<and> py_le retries (PInt 100)) then
        Inl (ConfigError ''max_retries must be an integer between 1 and 100'')
      else
        (case py_float interval of
           Inl err \<Rightarrow> Inl err
         | Inr fi \<Rightarrow>
            (case py_float spread of
               Inl err \<Rightarrow> Inl err
             | Inr ms \<Rightarrow>
                Inr \<lparr>market_pairs = pairs, max_cycles = cycles, fetch_interval = fi,
                     min_spread = ms, max_retries = retries\<rparr>)))"

subsection \<open>The world the loader and the resolver read\<close>

text \<open>
  What \<^verbatim>\<open>os.path.isfile\<close> and \<^verbatim>\<open>toml.load\<close> find at a path: no regular file; a file
  that \<^verbatim>\<open>toml.load\<close> raises on (with the text of the exception); or a document.
\<close>

datatype fs_entry = NoFile | Unparsable string | Document "string \<rightharpoonup> pyval"

text \<open>
  \<open>import_cwd\<close> is \<^verbatim>\<open>os.getcwd()\<close> at the time the module \<^verbatim>\<open>config\<close> is imported,
  when \<^verbatim>\<open>DEFAULT_CONFIG_FILE\<close> is computed; \<open>environ\<close> is the process environment;
  \<open>files\<close> the file system; \<open>keyring_get_password\<close> is what
  \<^verbatim>\<open>keyring.get_password(namespace, key)\<close> answers: an exception of the backend, or a
  value (a string or \<^verbatim>\<open>None\<close> by its signature, which Python does not enforce and
  the resolver asserts).
\<close>

record world =
  import_cwd :: string
  environ :: "string \<rightharpoonup> string"
  files :: "string \<Rightarrow> fs_entry"
  keyring_get_password :: "string \<Rightarrow> string \<Rightarrow> error + pyval"

definition CONFIG_PATH_ENV :: string where
  "CONFIG_PATH_ENV = ''ARBBOT_CONFIG''"

text \<open>\<^verbatim>\<open>os.path.join(a, b)\<close> of two components, on POSIX.\<close>

definition path_join :: "string \<Rightarrow> string \<Rightarrow> string" where
  "path_join a b =
     (if b \<noteq> [] \<and> hd b = CHR ''/'' then b
      else if a = [] \<or> last a = CHR ''/'' then a @ b
      else a @ ''/'' @ b)"

definition DEFAULT_CONFIG_FILE :: "world \<Rightarrow> string" where
  "DEFAULT_CONFIG_FILE w = path_join (import_cwd w) ''config.toml''"

definition read_config_file :: "world \<Rightarrow> string \<Rightarrow> error + (string \<rightharpoonup> pyval)" where
  "read_config_file w path =
     (case files w path of
        NoFile \<Rightarrow> Inl (ConfigError (''Config file not found: '' @ path))
      | Unparsable e \<Rightarrow> Inl (ConfigError (''Failed to parse config ('' @ path @ ''): '' @ e))
      | Document d \<Rightarrow> Inr d)"

text \<open>
  Line 116, \<^verbatim>\<open>path or os.getenv(CONFIG_PATH_ENV) or DEFAULT_CONFIG_FILE\<close>: \<^verbatim>\<open>or\<close> yields
  its left operand when that is truthy (neither \<^verbatim>\<open>None\<close> nor the empty string).
\<close>

definition str_or :: "string option \<Rightarrow> string option \<Rightarrow> string option" where
  "str_or a b = (case a of Some s \<Rightarrow> (if s \<noteq> [] then a else b) | None \<Rightarrow> b)"

definition cfg_path :: "world \<Rightarrow> string option \<Rightarrow> string" where
  "cfg_path w path =
     (case str_or (str_or path (environ w CONFIG_PATH_ENV)) (Some (DEFAULT_CONFIG_FILE w)) of
        Some p \<Rightarrow> p
      | None \<Rightarrow> [])"

definition load_config :: "world \<Rightarrow> string option \<Rightarrow> error + Config" where
  "load_config w path =
     (case read_config_file w (cfg_path w path) of
        Inl err \<Rightarrow> Inl err
      | Inr raw \<Rightarrow> validate_config raw)"

section \<open>The credential resolver\<close>

text \<open>
  Two operations of the resolver depend on the code points of a str and are no code of
  this repository; they are parameters of the model:
  \<^item> \<open>str_upper\<close> is \<^verbatim>\<open>str.upper()\<close>, the upper-casing of Unicode (on ASCII it maps
    \<^verbatim>\<open>a\<close> to \<^verbatim>\<open>z\<close> to \<^verbatim>\<open>A\<close> to \<^verbatim>\<open>Z\<close>; beyond ASCII it can change the length, as in
    \<^verbatim>\<open>STRASSE\<close>);
  \<^item> \<open>env_encodable\<close> says whether \<^verbatim>\<open>os.getenv\<close> can encode a name for the lookup; it
    cannot encode a lone surrogate and then raises UnicodeEncodeError.
\<close>

record str_ops =
  str_upper :: "string \<Rightarrow> string"
  env_encodable :: "string \<Rightarrow> bool"

text \<open>
  \<^verbatim>\<open>os.getenv(name)\<close>: UnicodeEncodeError for a name that cannot be encoded, otherwise
  the value of the variable, or \<^verbatim>\<open>None\<close>. (The name the loader looks up,
  \<^verbatim>\<open>CONFIG_PATH_ENV\<close>, is a constant of ASCII letters, which can be encoded.)
\<close>

definition getenv :: "str_ops \<Rightarrow> world \<Rightarrow> string \<Rightarrow> error + pyval" where
  "getenv py w name =
     (if \<not> env_encodable py name then Inl (UnicodeEncodeError ''surrogates not allowed'')
      else case environ w name of None \<Rightarrow> Inr PNone | Some v \<Rightarrow> Inr (PStr v))"

definition not_found_message :: "string \<Rightarrow> string" where
  "not_found_message name =
     ''API key for '' @ [CHR 0x27] @ name @ [CHR 0x27] @ '' not found in keyring or environment''"

text \<open>
  \<^verbatim>\<open>get_api_key\<close>, with the \<^verbatim>\<open>assert\<close> statements executed (the interpreter's default
  mode). The argument is any Python value: the first assertion is the function's own
  check of it. An exception of \<^verbatim>\<open>keyring.get_password\<close> or of \<^verbatim>\<open>os.getenv\<close> is not
  caught and propagates.
\<close>

definition get_api_key :: "str_ops \<Rightarrow> world \<Rightarrow> pyval \<Rightarrow> error + pyval" where
  "get_api_key py w service_name =
     (case service_name of
        PStr name \<Rightarrow>
          if name = [] then Inl (AssertionError ''service_name must be a non-empty string'')
          else
            (case keyring_get_password w ''arbbot'' name of
               Inl err \<Rightarrow> Inl err
             | Inr stored \<Rightarrow>
                (case (if \<not> truthy stored then getenv py w (str_upper py name)
                       else Inr stored) of
                   Inl err \<Rightarrow> Inl err
                 | Inr key \<Rightarrow>
                     if \<not> (key = PNone \<or> isinstance_str key) then
                       Inl (AssertionError ''retrieved key must be a string or None'')
                     else if \<not> truthy key then Inl (CredentialError (not_found_message name))
                     else Inr key))
      | _ \<Rightarrow> Inl (AssertionError ''service_name must be a non-empty string''))"

section \<open>The documented constraints\<close>

text \<open>
  The constraints of the specification's data model, in its words: \<open>market_pairs\<close> a
  non-empty list; \<open>max_cycles\<close> an integer in [1, 10000]; \<open>fetch_interval\<close> a number
  (an integer or a float) greater than 0; \<open>min_spread\<close> a number at least 0;
  \<open>max_retries\<close> an integer in [1, 100]. A missing field reads as \<^verbatim>\<open>None\<close>, which
  satisfies none of them. A TOML boolean is neither an integer nor a number.
\<close>

fun spec_nonempty_list :: "pyval \<Rightarrow> bool" where
  "spec_nonempty_list (PList xs) = (xs \<noteq> [])"
| "spec_nonempty_list v = False"

fun spec_int_in :: "int \<Rightarrow> int \<Rightarrow> pyval \<Rightarrow> bool" where
  "spec_int_in lo hi (PInt i) = (lo \<le> i \<and> i \<le> hi)"
| "spec_int_in lo hi v = False"

fun spec_positive_number :: "pyval \<Rightarrow> bool" where
  "spec_positive_number (PInt i) = (0 < i)"
| "spec_positive_number (PFloat x) = float_lt (Finite 0) x"
| "spec_positive_number v = False"

fun spec_nonneg_number :: "pyval \<Rightarrow> bool" where
  "spec_nonneg_number (PInt i) = (0 \<le> i)"
| "spec_nonneg_number (PFloat x) = float_le (Finite 0) x"
| "spec_nonneg_number v = False"

datatype field = Market_pairs | Max_cycles | Fetch_interval | Min_spread | Max_retries

fun field_name :: "field \<Rightarrow> string" where
  "field_name Market_pairs = ''market_pairs''"
| "field_name Max_cycles = ''max_cycles''"
| "field_name Fetch_interval = ''fetch_interval''"
| "field_name Min_spread = ''min_spread''"
| "field_name Max_retries = ''max_retries''"

fun spec_field_ok :: "field \<Rightarrow> pyval \<Rightarrow> bool" where
  "spec_field_ok Market_pairs v = spec_nonempty_list v"
| "spec_field_ok Max_cycles v = spec_int_in 1 10000 v"
| "spec_field_ok Fetch_interval v = spec_positive_number v"
| "spec_field_ok Min_spread v = spec_nonneg_number v"
| "spec_field_ok Max_retries v = spec_int_in 1 100 v"

text \<open>The value a document gives a field.\<close>

definition field_value :: "(string \<rightharpoonup> pyval) \<Rightarrow> field \<Rightarrow> pyval" where
  "field_value data f = dict_get data (field_name f)"

definition within_bounds :: "(string \<rightharpoonup> pyval) \<Rightarrow> bool" where
  "within_bounds data =
     (spec_field_ok Market_pairs (field_value data Market_pairs) \<and>
      spec_field_ok Max_cycles (field_value data Max_cycles) \<and>
      spec_field_ok Fetch_interval (field_value data Fetch_interval) \<and>
      spec_field_ok Min_spread (field_value data Min_spread) \<and>
      spec_field_ok Max_retries (field_value data Max_retries))"

text \<open>
  An int that \<^verbatim>\<open>float()\<close> can convert: one below \<open>2 ^ 1024 - 2 ^ 970\<close> in magnitude,
  the least int that rounds to \<open>2 ^ 1024\<close>. The other values need no conversion.
\<close>

fun fits_float :: "pyval \<Rightarrow> bool" where
  "fits_float (PInt i) = (\<bar>i\<bar> < 2 ^ 1024 - 2 ^ 970)"
| "fits_float v = True"

text \<open>
  The order of the checks in \<^verbatim>\<open>_validate_config\<close>: the fields checked before a given
  one.
\<close>

fun checked_before :: "field \<Rightarrow> field list" where
  "checked_before Market_pairs = []"
| "checked_before Max_cycles = [Market_pairs]"
| "checked_before Fetch_interval = [Market_pairs, Max_cycles]"
| "checked_before Min_spread = [Market_pairs, Max_cycles, Fetch_interval]"
| "checked_before Max_retries = [Market_pairs, Max_cycles, Fetch_interval, Min_spread]"

text \<open>
  Python's reading of a boolean where a number is expected: \<^verbatim>\<open>True\<close> is the int 1 and
  \<^verbatim>\<open>False\<close> the int 0.
\<close>

fun bool_as_int :: "pyval \<Rightarrow> pyval" where
  "bool_as_int (PBool b) = PInt (if b then 1 else 0)"
| "bool_as_int v = v"

section \<open>Example inputs\<close>

text \<open>
  The document of the specification's concrete scenario, and a world that holds it at
  the default path, with an empty environment and an empty secret store.
\<close>

definition example_document :: "string \<rightharpoonup> pyval" where
  "example_document =
     [''market_pairs'' \<mapsto> PList [PStr ''BTC-USD'', PStr ''ETH-USD''],
      ''max_cycles'' \<mapsto> PInt 100,
      ''fetch_interval'' \<mapsto> PFloat (Finite 5),
      ''min_spread'' \<mapsto> PFloat (Finite (2 / 1000)),
      ''max_retries'' \<mapsto> PInt 3]"

definition example_world :: world where
  "example_world =
     \<lparr>import_cwd = ''/srv/arbbot'',
      environ = Map.empty,
      files = (\<lambda>p. if p = ''/srv/arbbot/config.toml'' then Document example_document else NoFile),
      keyring_get_password = (\<lambda>namespace key. Inr PNone)\<rparr>"

text \<open>The example document with an integer \<open>fetch_interval\<close> of \<open>2 ^ 1024\<close>.\<close>

definition huge_interval_document :: "string \<rightharpoonup> pyval" where
  "huge_interval_document = example_document(''fetch_interval'' \<mapsto> PInt (2 ^ 1024))"

text \<open>The example world with another document at the default path.\<close>

definition world_holding :: "(string \<rightharpoonup> pyval) \<Rightarrow> world" where
  "world_holding d =
     example_world\<lparr>files := (\<lambda>p. if p = ''/srv/arbbot/config.toml'' then Document d else NoFile)\<rparr>"

text \<open>Variants of the example document, each with one or two fields replaced.\<close>

definition zero_cycles_document :: "string \<rightharpoonup> pyval" where
  "zero_cycles_document = example_document(''max_cycles'' \<mapsto> PInt 0)"

definition bool_cycles_document :: "string \<rightharpoonup> pyval" where
  "bool_cycles_document = example_document(''max_cycles'' \<mapsto> PBool True)"

definition boolean_document :: "string \<rightharpoonup> pyval" where
  "boolean_document = example_document(''max_cycles'' \<mapsto> PBool True, ''max_retries'' \<mapsto> PBool True)"

definition nan_interval_document :: "string \<rightharpoonup> pyval" where
  "nan_interval_document = example_document(''fetch_interval'' \<mapsto> PFloat NaN)"

section \<open>Path resolution, in the words of the specification\<close>

text \<open>
  The precedence as the specification states it: the explicit argument if supplied,
  else the environment variable if set, else the default path.
\<close>

definition stated_path :: "world \<Rightarrow> string option \<Rightarrow> string" where
  "stated_path w path =
     (case path of
        Some p \<Rightarrow> p
      | None \<Rightarrow> (case environ w CONFIG_PATH_ENV of Some e \<Rightarrow> e | None \<Rightarrow> DEFAULT_CONFIG_FILE w))"

text \<open>
  The same precedence where an empty string counts as not supplied and as not set.
\<close>

definition env_or_default :: "world \<Rightarrow> string" where
  "env_or_default w =
     (case environ w CONFIG_PATH_ENV of
        Some e \<Rightarrow> if e \<noteq> [] then e else DEFAULT_CONFIG_FILE w
      | None \<Rightarrow> DEFAULT_CONFIG_FILE w)"

definition resolved_path :: "world \<Rightarrow> string option \<Rightarrow> string" where
  "resolved_path w path =
     (case path of
        Some p \<Rightarrow> if p \<noteq> [] then p else env_or_default w
      | None \<Rightarrow> env_or_default w)"

text \<open>The world in which every file but the one at \<open>p\<close> is gone.\<close>

definition only_file :: "world \<Rightarrow> string \<Rightarrow> world" where
  "only_file w p = w\<lparr>files := (\<lambda>p'. if p' = p then files w p else NoFile)\<rparr>"

text \<open>
  A world with a different document at each tier of the precedence; the documents
  differ in \<open>max_cycles\<close>.
\<close>

definition tier_document :: "int \<Rightarrow> string \<rightharpoonup> pyval" where
  "tier_document n = example_document(''max_cycles'' \<mapsto> PInt n)"

definition tier_world :: world where
  "tier_world =
     \<lparr>import_cwd = ''/srv/arbbot'',
      environ = [''ARBBOT_CONFIG'' \<mapsto> ''/etc/arbbot.toml''],
      files = (\<lambda>p. if p = ''/tmp/explicit.toml'' then Document (tier_document 1)
                   else if p = ''/etc/arbbot.toml'' then Document (tier_document 2)
                   else if p = ''/srv/arbbot/config.toml'' then Document (tier_document 3)
                   else NoFile),
      keyring_get_password = (\<lambda>namespace key. Inr PNone)\<rparr>"

text \<open>
  The bounds of the data model on a Configuration. The dataclass holds \<open>max_cycles\<close>
  and \<open>max_retries\<close> as read, so a boolean there is taken by its integer value.
\<close>

definition config_within_bounds :: "Config \<Rightarrow> bool" where
  "config_within_bounds c =
     (spec_nonempty_list (market_pairs c) \<and>
      spec_int_in 1 10000 (bool_as_int (max_cycles c)) \<and>
      float_lt (Finite 0) (fetch_interval c) \<and>
      float_le (Finite 0) (min_spread c) \<and>
      spec_int_in 1 100 (bool_as_int (max_retries c)))"

text \<open>
  The two parameters at ASCII strings, which are what the examples use: there
  \<^verbatim>\<open>str.upper()\<close> maps the letters \<^verbatim>\<open>a\<close> to \<^verbatim>\<open>z\<close> to \<^verbatim>\<open>A\<close> to \<^verbatim>\<open>Z\<close> and leaves the
  other characters as they are, and every name can be encoded.
\<close>

definition ascii_upper_char :: "char \<Rightarrow> char" where
  "ascii_upper_char c =
     (let n = of_char c :: nat in if 97 \<le> n \<and> n \<le> 122 then char_of (n - 32) else c)"

definition ascii_upper :: "string \<Rightarrow> string" where
  "ascii_upper s = map ascii_upper_char s"

definition ascii_ops :: str_ops where
  "ascii_ops = \<lparr>str_upper = ascii_upper, env_encodable = (\<lambda>name. True)\<rparr>"

text \<open>
  A world for the resolver: the secret store answers \<open>answer\<close> for the key
  \<^verbatim>\<open>kraken\<close> in the namespace \<^verbatim>\<open>arbbot\<close> and \<^verbatim>\<open>None\<close> for every other key.
\<close>

definition credential_world :: "error + pyval \<Rightarrow> (string \<rightharpoonup> string) \<Rightarrow> world" where
  "credential_world answer env =
     \<lparr>import_cwd = ''/srv/arbbot'',
      environ = env,
      files = (\<lambda>p. NoFile),
      keyring_get_password =
        (\<lambda>namespace key. if namespace = ''arbbot'' \<and> key = ''kraken'' then answer else Inr PNone)\<rparr>"

section \<open>Facts about the model\<close>

subsection \<open>Conversion of an int to a float\<close>

lemma bitlen_small:
  assumes "bitlen a \<le> 53" "0 \<le> a"
  shows "a < 2 ^ 53"
proof (cases "a = 0")
  case True then show ?thesis by simp
next
  case False
  with assms have pos: "0 < a" by simp
  from bitlen_bounds[OF pos] have "a < 2 ^ nat (bitlen a)" by simp
  also have "\<dots> \<le> (2::int) ^ 53"
    using assms(1) by (intro power_increasing) auto
  finally show ?thesis .
qed

lemma mantissa_bounds:
  fixes a :: int
  assumes "53 < bitlen a"
  defines "e \<equiv> nat (bitlen a - 53)"
  shows "2 ^ 52 \<le> a div 2 ^ e" "a div 2 ^ e < 2 ^ 53" "2 ^ 52 * 2 ^ e \<le> a" "a < 2 ^ 53 * 2 ^ e"
proof -
  have pos: "0 < a" using assms(1) bitlen_eq_zero_iff[of a] by (cases "0 < a") auto
  have n1: "nat (bitlen a - 1) = 52 + e" and n2: "nat (bitlen a) = 53 + e"
    using assms(1) by (auto simp: e_def)
  from bitlen_bounds[OF pos] have lo: "2 ^ (52 + e) \<le> a" and hi: "a < 2 ^ (53 + e)"
    by (simp_all add: n1 n2)
  show l: "2 ^ 52 * 2 ^ e \<le> a" using lo by (simp add: power_add)
  show h: "a < 2 ^ 53 * 2 ^ e" using hi by (simp add: power_add)
  have p: "(0::int) < 2 ^ e" by simp
  have "2 ^ 52 * 2 ^ e div 2 ^ e \<le> a div (2::int) ^ e"
    using l p by (intro zdiv_mono1) auto
  then show "2 ^ 52 \<le> a div 2 ^ e" by simp
  show "a div 2 ^ e < 2 ^ 53"
  proof (rule ccontr)
    assume "\<not> a div 2 ^ e < 2 ^ 53"
    then have "2 ^ 53 \<le> a div (2::int) ^ e" by simp
    then have "2 ^ 53 * 2 ^ e \<le> (a div 2 ^ e) * (2::int) ^ e"
      by (intro mult_right_mono) auto
    also have "\<dots> \<le> a"
      using p by (metis mult.commute pos_mod_sign [OF p, of a] mult_div_mod_eq [of "2 ^ e" a] add_increasing2 order_refl)
    finally show False using h by simp
  qed
qed

lemma round_overflow_iff:
  fixes a :: int
  assumes big: "53 < bitlen a"
  shows "2 ^ 1024 \<le> round_to_53_bits a \<longleftrightarrow> 2 ^ 1024 - 2 ^ 970 \<le> a"
proof -
  define e where "e = nat (bitlen a - 53)"
  define q where "q = a div 2 ^ e"
  define r where "r = a mod 2 ^ e"
  define q' where "q' = (if 2 ^ (e - 1) < r \<or> (r = 2 ^ (e - 1) \<and> odd q) then q + 1 else q)"
  have m: "round_to_53_bits a = q' * 2 ^ e"
    by (simp add: round_to_53_bits_def Let_def e_def q_def r_def q'_def)
  have qb: "2 ^ 52 \<le> q" "q < 2 ^ 53" and ab: "2 ^ 52 * 2 ^ e \<le> a" "a < 2 ^ 53 * 2 ^ e"
    using mantissa_bounds[OF big] by (simp_all add: q_def e_def)
  have q'b: "q \<le> q'" "q' \<le> q + 1" by (simp_all add: q'_def)
  have a_eq: "a = q * 2 ^ e + r" unfolding q_def r_def by (rule div_mult_mod_eq [symmetric])
  have rb: "0 \<le> r" "r < 2 ^ e" by (simp_all add: r_def)
  have e1: "1 \<le> e" using big by (simp add: e_def)
  consider "e \<le> 970" | "e = 971" | "972 \<le> e" by linarith
  then show ?thesis
  proof cases
    case 1
    then have p: "(2::int) ^ e \<le> 2 ^ 970" by (intro power_increasing) auto
    have top: "2 ^ 53 * (2::int) ^ e \<le> 2 ^ 53 * 2 ^ 970"
      using p by (intro mult_left_mono) auto
    have "q' * 2 ^ e \<le> 2 ^ 53 * (2::int) ^ e"
      using q'b qb by (intro mult_right_mono) auto
    then have "q' * 2 ^ e \<le> 2 ^ 53 * (2::int) ^ 970" using top by (rule order_trans)
    then have "round_to_53_bits a \<le> 2 ^ 53 * (2::int) ^ 970" unfolding m .
    then have "round_to_53_bits a < 2 ^ 1024" by simp
    moreover have "a < 2 ^ 53 * (2::int) ^ 970"
      using ab(2) top by (rule less_le_trans)
    then have "a < 2 ^ 1024 - 2 ^ 970" by simp
    ultimately show ?thesis by simp
  next
    case 3
    then have p: "(2::int) ^ 972 \<le> 2 ^ e" by (intro power_increasing) auto
    have "(2::int) ^ 1024 = 2 ^ 52 * 2 ^ 972" by simp
    also have "\<dots> \<le> 2 ^ 52 * 2 ^ e"
      using p by (intro mult_left_mono) auto
    finally have low: "2 ^ 1024 \<le> 2 ^ 52 * (2::int) ^ e" .
    have "2 ^ 52 * (2::int) ^ e \<le> q' * 2 ^ e"
      using q'b qb by (intro mult_right_mono) auto
    with low have "2 ^ 1024 \<le> q' * 2 ^ e" by (rule order_trans)
    then have "2 ^ 1024 \<le> round_to_53_bits a" unfolding m .
    moreover have "(2::int) ^ 1024 \<le> a" using low ab(1) by (rule order_trans)
    then have "2 ^ 1024 - 2 ^ 970 \<le> a" by simp
    ultimately show ?thesis by simp
  next
    case 2
    have q'_alt: "q' = (if 2 ^ 970 < r \<or> (r = 2 ^ 970 \<and> odd q) then q + 1 else q)"
      by (simp add: q'_def 2)
    have a2: "a = q * 2 ^ 971 + r" and r2: "r < 2 ^ 971" using a_eq rb by (simp_all add: 2)
    have m2: "round_to_53_bits a = q' * 2 ^ 971" by (simp add: m 2)
    have L: "2 ^ 1024 \<le> round_to_53_bits a \<longleftrightarrow> 2 ^ 53 \<le> q'"
      unfolding m2 by simp
    have R: "2 ^ 1024 - 2 ^ 970 \<le> a \<longleftrightarrow> q = 2 ^ 53 - 1 \<and> 2 ^ 970 \<le> r"
    proof (cases "q = 2 ^ 53 - 1")
      case True
      have "2 ^ 1024 - 2 ^ 970 \<le> (2 ^ 53 - 1) * 2 ^ 971 + r \<longleftrightarrow> 2 ^ 970 \<le> r"
        by simp
      then show ?thesis using True a2 by simp
    next
      case False
      then have "q \<le> 2 ^ 53 - 2" using qb by simp
      then have "q * 2 ^ 971 \<le> (2 ^ 53 - 2) * (2::int) ^ 971"
        by (intro mult_right_mono) auto
      then have "q * 2 ^ 971 + r < (2 ^ 53 - 2) * (2::int) ^ 971 + 2 ^ 971"
        using r2 by linarith
      then have "a < 2 ^ 1024 - 2 ^ 970" using a2 by simp
      then show ?thesis using False by simp
    qed
    have Q: "2 ^ 53 \<le> q' \<longleftrightarrow> q = 2 ^ 53 - 1 \<and> 2 ^ 970 \<le> r"
    proof (cases "q = 2 ^ 53 - 1")
      case True
      then have "odd q" by simp
      then show ?thesis using True by (auto simp: q'_alt)
    next
      case False
      then have "q \<le> 2 ^ 53 - 2" using qb by simp
      then show ?thesis using False by (auto simp: q'_alt)
    qed
    show ?thesis using L R Q by blast
  qed
qed

lemma round_positive:
  fixes a :: int
  assumes big: "53 < bitlen a"
  shows "0 < round_to_53_bits a"
proof -
  define e where "e = nat (bitlen a - 53)"
  define q where "q = a div 2 ^ e"
  define r where "r = a mod 2 ^ e"
  define q' where "q' = (if 2 ^ (e - 1) < r \<or> (r = 2 ^ (e - 1) \<and> odd q) then q + 1 else q)"
  have m: "round_to_53_bits a = q' * 2 ^ e"
    by (simp add: round_to_53_bits_def Let_def e_def q_def r_def q'_def)
  have "2 ^ 52 \<le> q" using mantissa_bounds(1)[OF big] by (simp add: q_def e_def)
  then have "0 < q'" by (simp add: q'_def)
  then show ?thesis unfolding m by simp
qed

lemma int_to_float_overflow_iff:
  "(\<exists>err. int_to_float i = Inl err) \<longleftrightarrow> 2 ^ 1024 - 2 ^ 970 \<le> \<bar>i\<bar>"
proof (cases "bitlen \<bar>i\<bar> \<le> 53")
  case True
  then have "\<bar>i\<bar> < 2 ^ 53" by (intro bitlen_small) auto
  then have "\<not> 2 ^ 1024 - 2 ^ 970 \<le> \<bar>i\<bar>" by simp
  then show ?thesis using True by (simp add: int_to_float_def)
next
  case False
  then have "53 < bitlen \<bar>i\<bar>" by simp
  from round_overflow_iff[OF this] show ?thesis
    using False by (simp add: int_to_float_def)
qed

lemma int_to_float_fits:
  assumes "\<bar>i\<bar> < 2 ^ 1024 - 2 ^ 970"
  shows "\<exists>x. int_to_float i = Inr x"
proof -
  have "\<not> (\<exists>err. int_to_float i = Inl err)"
    using assms by (simp only: int_to_float_overflow_iff not_le)
  then show ?thesis by (cases "int_to_float i") auto
qed

lemma int_to_float_too_large:
  assumes "2 ^ 1024 - 2 ^ 970 \<le> \<bar>i\<bar>"
  shows "int_to_float i = Inl (OverflowError ''int too large to convert to float'')"
proof -
  from assms obtain err where "int_to_float i = Inl err"
    using int_to_float_overflow_iff[of i] by blast
  then show ?thesis by (auto simp: int_to_float_def split: if_splits)
qed

lemma int_to_float_exact: "\<bar>i\<bar> < 2 ^ 53 \<Longrightarrow> int_to_float i = Inr (Finite (of_int i))"
proof -
  assume a: "\<bar>i\<bar> < 2 ^ 53"
  have "bitlen \<bar>i\<bar> \<le> 53"
  proof (rule ccontr)
    assume "\<not> bitlen \<bar>i\<bar> \<le> 53"
    then have "53 < bitlen \<bar>i\<bar>" by simp
    from mantissa_bounds(3)[OF this] have "2 ^ 52 * 2 ^ nat (bitlen \<bar>i\<bar> - 53) \<le> \<bar>i\<bar>" .
    moreover have "(2::int) ^ 1 \<le> 2 ^ nat (bitlen \<bar>i\<bar> - 53)"
      using \<open>53 < bitlen \<bar>i\<bar>\<close> by (intro power_increasing) auto
    then have "2 ^ 52 * (2::int) ^ 1 \<le> 2 ^ 52 * 2 ^ nat (bitlen \<bar>i\<bar> - 53)"
      by (intro mult_left_mono) auto
    ultimately have "2 ^ 52 * (2::int) ^ 1 \<le> \<bar>i\<bar>" by (rule order_trans[rotated])
    then show False using a by simp
  qed
  then show ?thesis by (simp add: int_to_float_def)
qed

lemma py_float_fits:
  assumes "isinstance_int v \<or> isinstance_float v" "fits_float v"
  shows "\<exists>x. py_float v = Inr x"
  using assms by (cases v) (auto intro: int_to_float_fits)

subsection \<open>The checks of the loader, in terms of the documented constraints\<close>

lemma check_list: "(\<not> isinstance_list v \<or> \<not> truthy v) = (\<not> spec_nonempty_list v)"
  by (cases v) auto

lemma check_int_in:
  "(\<not> isinstance_int v \<or> \<not> (py_le (PInt lo) v \<and> py_le v (PInt hi))) =
   (\<not> spec_int_in lo hi (bool_as_int v))"
  by (cases v) (auto simp: py_le_def)

lemma not_float_lt_zero: "x \<noteq> NaN \<Longrightarrow> float_le x (Finite 0) = (\<not> float_lt (Finite 0) x)"
  by (cases x) auto

lemma not_float_le_zero: "x \<noteq> NaN \<Longrightarrow> float_lt x (Finite 0) = (\<not> float_le (Finite 0) x)"
  by (cases x) auto

lemma check_positive:
  "v \<noteq> PFloat NaN \<Longrightarrow>
   (\<not> (isinstance_int v \<or> isinstance_float v) \<or> py_le v (PInt 0)) =
   (\<not> spec_positive_number (bool_as_int v))"
  by (cases v) (auto simp: py_le_def not_float_lt_zero)

lemma check_nonneg:
  "v \<noteq> PFloat NaN \<Longrightarrow>
   (\<not> (isinstance_int v \<or> isinstance_float v) \<or> py_lt v (PInt 0)) =
   (\<not> spec_nonneg_number (bool_as_int v))"
  by (cases v) (auto simp: py_lt_def not_float_le_zero)

lemma spec_positive_not_nan: "spec_positive_number v \<Longrightarrow> v \<noteq> PFloat NaN"
  by (cases v) auto

lemma spec_nonneg_not_nan: "spec_nonneg_number v \<Longrightarrow> v \<noteq> PFloat NaN"
  by (cases v) auto

lemma spec_int_in_bool_as_int: "spec_int_in lo hi v \<Longrightarrow> bool_as_int v = v"
  by (cases v) auto

lemma spec_positive_bool_as_int: "spec_positive_number v \<Longrightarrow> bool_as_int v = v"
  by (cases v) auto

lemma spec_nonneg_bool_as_int: "spec_nonneg_number v \<Longrightarrow> bool_as_int v = v"
  by (cases v) auto

lemma validate_config_passes:
  assumes "spec_nonempty_list (dict_get data ''market_pairs'')"
    and "spec_int_in 1 10000 (bool_as_int (dict_get data ''max_cycles''))"
    and "spec_positive_number (bool_as_int (dict_get data ''fetch_interval''))"
    and "spec_nonneg_number (bool_as_int (dict_get data ''min_spread''))"
    and "spec_int_in 1 100 (bool_as_int (dict_get data ''max_retries''))"
  shows "validate_config data =
     (case py_float (dict_get data ''fetch_interval'') of
        Inl err \<Rightarrow> Inl err
      | Inr fi \<Rightarrow>
         (case py_float (dict_get data ''min_spread'') of
            Inl err \<Rightarrow> Inl err
          | Inr ms \<Rightarrow>
             Inr \<lparr>market_pairs = dict_get data ''market_pairs'',
                  max_cycles = dict_get data ''max_cycles'',
                  fetch_interval = fi, min_spread = ms,
                  max_retries = dict_get data ''max_retries''\<rparr>))"
proof -
  have n1: "dict_get data ''fetch_interval'' \<noteq> PFloat NaN"
    using assms(3) by (cases "dict_get data ''fetch_interval''") auto
  have n2: "dict_get data ''min_spread'' \<noteq> PFloat NaN"
    using assms(4) by (cases "dict_get data ''min_spread''") auto
  show ?thesis
    unfolding validate_config_def Let_def
    using assms
    by (simp only: check_list check_int_in check_positive[OF n1] check_nonneg[OF n2] not_True_eq_False if_False)
qed

lemma spec_positive_isinstance: "spec_positive_number v \<Longrightarrow> isinstance_int v \<or> isinstance_float v"
  by (cases v) auto

lemma spec_nonneg_isinstance: "spec_nonneg_number v \<Longrightarrow> isinstance_int v \<or> isinstance_float v"
  by (cases v) auto

lemma load_config_document:
  "files w (cfg_path w path) = Document data \<Longrightarrow> load_config w path = validate_config data"
  by (simp add: load_config_def read_config_file_def)

lemma example_path: "cfg_path example_world None = ''/srv/arbbot/config.toml''"
  by (simp add: cfg_path_def str_or_def example_world_def DEFAULT_CONFIG_FILE_def path_join_def)

lemma example_file: "files example_world ''/srv/arbbot/config.toml'' = Document example_document"
  by (simp add: example_world_def)

lemma world_holding_path: "cfg_path (world_holding d) None = ''/srv/arbbot/config.toml''"
  by (simp add: world_holding_def cfg_path_def str_or_def example_world_def DEFAULT_CONFIG_FILE_def path_join_def)

lemma world_holding_file: "files (world_holding d) (cfg_path (world_holding d) None) = Document d"
  by (simp add: world_holding_path) (simp add: world_holding_def)

lemma spec_positive_bool_not_nan: "spec_positive_number (bool_as_int v) \<Longrightarrow> v \<noteq> PFloat NaN"
  by (cases v) auto

lemma spec_nonneg_bool_not_nan: "spec_nonneg_number (bool_as_int v) \<Longrightarrow> v \<noteq> PFloat NaN"
  by (cases v) auto

lemma reject_market_pairs:
  assumes "\<not> spec_nonempty_list (dict_get data ''market_pairs'')"
  shows "validate_config data = Inl (ConfigError ''market_pairs must be a non-empty list'')"
  unfolding validate_config_def Let_def using assms
  by (simp only: check_list simp_thms if_True)

lemma reject_max_cycles:
  assumes "spec_nonempty_list (dict_get data ''market_pairs'')"
    and "\<not> spec_int_in 1 10000 (bool_as_int (dict_get data ''max_cycles''))"
  shows "validate_config data = Inl (ConfigError ''max_cycles must be an integer between 1 and 10000'')"
  unfolding validate_config_def Let_def using assms
  by (simp only: check_list check_int_in simp_thms if_True if_False)

lemma reject_fetch_interval:
  assumes "spec_nonempty_list (dict_get data ''market_pairs'')"
    and "spec_int_in 1 10000 (bool_as_int (dict_get data ''max_cycles''))"
    and "\<not> spec_positive_number (bool_as_int (dict_get data ''fetch_interval''))"
    and n: "dict_get data ''fetch_interval'' \<noteq> PFloat NaN"
  shows "validate_config data = Inl (ConfigError ''fetch_interval must be a positive number'')"
  unfolding validate_config_def Let_def using assms(1-3)
  by (simp only: check_list check_int_in check_positive[OF n] simp_thms if_True if_False)

lemma reject_min_spread:
  assumes "spec_nonempty_list (dict_get data ''market_pairs'')"
    and "spec_int_in 1 10000 (bool_as_int (dict_get data ''max_cycles''))"
    and p: "spec_positive_number (bool_as_int (dict_get data ''fetch_interval''))"
    and "\<not> spec_nonneg_number (bool_as_int (dict_get data ''min_spread''))"
    and n: "dict_get data ''min_spread'' \<noteq> PFloat NaN"
  shows "validate_config data = Inl (ConfigError ''min_spread must be >= 0'')"
  unfolding validate_config_def Let_def using assms(1-4)
  by (simp only: check_list check_int_in check_positive[OF spec_positive_bool_not_nan[OF p]]
        check_nonneg[OF n] simp_thms if_True if_False)

lemma reject_max_retries:
  assumes "spec_nonempty_list (dict_get data ''market_pairs'')"
    and "spec_int_in 1 10000 (bool_as_int (dict_get data ''max_cycles''))"
    and p: "spec_positive_number (bool_as_int (dict_get data ''fetch_interval''))"
    and q: "spec_nonneg_number (bool_as_int (dict_get data ''min_spread''))"
    and "\<not> spec_int_in 1 100 (bool_as_int (dict_get data ''max_retries''))"
  shows "validate_config data = Inl (ConfigError ''max_retries must be an integer between 1 and 100'')"
  unfolding validate_config_def Let_def using assms
  by (simp only: check_list check_int_in check_positive[OF spec_positive_bool_not_nan[OF p]]
        check_nonneg[OF spec_nonneg_bool_not_nan[OF q]] simp_thms if_True if_False)

lemma spec_nonempty_list_bool_as_int: "spec_nonempty_list (bool_as_int v) = spec_nonempty_list v"
  by (cases v) auto

lemma missing_field_violates:
  "data (field_name f) = None \<Longrightarrow> \<not> spec_field_ok f (bool_as_int (field_value data f))"
  by (cases f) (simp_all add: field_value_def dict_get_def)

lemma names_market_pairs: "sublist ''market_pairs'' ''market_pairs must be a non-empty list''"
  using sublist_append_rightI[of "''market_pairs''" "'' must be a non-empty list''"] by simp

lemma names_max_cycles:
  "sublist ''max_cycles'' ''max_cycles must be an integer between 1 and 10000''"
  using sublist_append_rightI[of "''max_cycles''" "'' must be an integer between 1 and 10000''"] by simp

lemma names_fetch_interval:
  "sublist ''fetch_interval'' ''fetch_interval must be a positive number''"
  using sublist_append_rightI[of "''fetch_interval''" "'' must be a positive number''"] by simp

lemma names_min_spread: "sublist ''min_spread'' ''min_spread must be >= 0''"
  using sublist_append_rightI[of "''min_spread''" "'' must be >= 0''"] by simp

lemma names_max_retries:
  "sublist ''max_retries'' ''max_retries must be an integer between 1 and 100''"
  using sublist_append_rightI[of "''max_retries''" "'' must be an integer between 1 and 100''"] by simp

lemma cfg_path_resolved: "cfg_path w path = resolved_path w path"
  by (simp add: cfg_path_def resolved_path_def env_or_default_def str_or_def
      split: option.splits)

lemma load_config_by_entry:
  "load_config w path =
     (case files w (cfg_path w path) of
        NoFile \<Rightarrow> Inl (ConfigError (''Config file not found: '' @ cfg_path w path))
      | Unparsable e \<Rightarrow>
          Inl (ConfigError (''Failed to parse config ('' @ cfg_path w path @ ''): '' @ e))
      | Document d \<Rightarrow> validate_config d)"
  by (simp add: load_config_def read_config_file_def split: fs_entry.splits)

lemma cfg_path_only_file: "cfg_path (only_file w p) path = cfg_path w path"
  by (simp add: cfg_path_def only_file_def DEFAULT_CONFIG_FILE_def)

lemma default_path_plain:
  assumes "import_cwd w \<noteq> []" "last (import_cwd w) \<noteq> CHR ''/''"
  shows "DEFAULT_CONFIG_FILE w = import_cwd w @ ''/config.toml''"
  using assms by (simp add: DEFAULT_CONFIG_FILE_def path_join_def)

lemma tier_document_valid:
  assumes "1 \<le> n" "n \<le> 10000"
  shows "validate_config (tier_document n) =
     Inr \<lparr>market_pairs = PList [PStr ''BTC-USD'', PStr ''ETH-USD''],
          max_cycles = PInt n,
          fetch_interval = Finite 5,
          min_spread = Finite (2 / 1000),
          max_retries = PInt 3\<rparr>"
  using assms
  by (subst validate_config_passes)
     (simp_all add: dict_get_def tier_document_def example_document_def)

lemma int_to_float_sign:
  assumes "int_to_float i = Inr x"
  shows "(0 < i \<longrightarrow> float_lt (Finite 0) x) \<and> (0 \<le> i \<longrightarrow> float_le (Finite 0) x)"
proof (cases "bitlen \<bar>i\<bar> \<le> 53")
  case True
  with assms have "x = Finite (of_int i)" by (simp add: int_to_float_def)
  then show ?thesis by simp
next
  case False
  then have big: "53 < bitlen \<bar>i\<bar>" by simp
  from round_positive[OF big] have r: "0 < round_to_53_bits \<bar>i\<bar>" .
  from assms False have x: "x = Finite (of_int (sgn i * round_to_53_bits \<bar>i\<bar>))"
    by (simp add: int_to_float_def split: if_splits)
  have nz: "i \<noteq> 0" using big by auto
  show ?thesis
  proof (cases "0 < i")
    case True
    then show ?thesis using r x by simp
  next
    case False
    then show ?thesis using nz by simp
  qed
qed

lemma py_float_positive:
  assumes "isinstance_int v \<or> isinstance_float v" "\<not> py_le v (PInt 0)"
    and "py_float v = Inr x" "x \<noteq> NaN"
  shows "float_lt (Finite 0) x"
proof (cases v)
  case (PInt i)
  with assms(2) have "0 < i" by (simp add: py_le_def)
  with assms(3) PInt show ?thesis using int_to_float_sign[of i x] by simp
next
  case (PBool b)
  with assms show ?thesis by (cases b) (auto simp: py_le_def)
next
  case (PFloat y)
  with assms show ?thesis by (auto simp: py_le_def not_float_lt_zero)
qed (use assms in auto)

lemma py_float_nonneg:
  assumes "isinstance_int v \<or> isinstance_float v" "\<not> py_lt v (PInt 0)"
    and "py_float v = Inr x" "x \<noteq> NaN"
  shows "float_le (Finite 0) x"
proof (cases v)
  case (PInt i)
  with assms(2) have "0 \<le> i" by (simp add: py_lt_def)
  with assms(3) PInt show ?thesis using int_to_float_sign[of i x] by simp
next
  case (PBool b)
  with assms show ?thesis by (cases b) (auto simp: py_lt_def)
next
  case (PFloat y)
  with assms show ?thesis by (auto simp: py_lt_def not_float_le_zero)
qed (use assms in auto)

lemma validate_config_Inr:
  assumes "validate_config data = Inr c"
  shows "spec_nonempty_list (dict_get data ''market_pairs'') \<and>
         spec_int_in 1 10000 (bool_as_int (dict_get data ''max_cycles'')) \<and>
         (isinstance_int (dict_get data ''fetch_interval'') \<or> isinstance_float (dict_get data ''fetch_interval'')) \<and>
         \<not> py_le (dict_get data ''fetch_interval'') (PInt 0) \<and>
         (isinstance_int (dict_get data ''min_spread'') \<or> isinstance_float (dict_get data ''min_spread'')) \<and>
         \<not> py_lt (dict_get data ''min_spread'') (PInt 0) \<and>
         spec_int_in 1 100 (bool_as_int (dict_get data ''max_retries'')) \<and>
         py_float (dict_get data ''fetch_interval'') = Inr (fetch_interval c) \<and>
         py_float (dict_get data ''min_spread'') = Inr (min_spread c) \<and>
         market_pairs c = dict_get data ''market_pairs'' \<and>
         max_cycles c = dict_get data ''max_cycles'' \<and>
         max_retries c = dict_get data ''max_retries''"
proof -
  let ?c1 = "\<not> isinstance_list (dict_get data ''market_pairs'') \<or> \<not> truthy (dict_get data ''market_pairs'')"
  let ?c2 = "\<not> isinstance_int (dict_get data ''max_cycles'') \<or>
     \<not> (py_le (PInt 1) (dict_get data ''max_cycles'') \<and> py_le (dict_get data ''max_cycles'') (PInt 10000))"
  let ?c3 = "\<not> (isinstance_int (dict_get data ''fetch_interval'') \<or> isinstance_float (dict_get data ''fetch_interval'')) \<or>
     py_le (dict_get data ''fetch_interval'') (PInt 0)"
  let ?c4 = "\<not> (isinstance_int (dict_get data ''min_spread'') \<or> isinstance_float (dict_get data ''min_spread'')) \<or>
     py_lt (dict_get data ''min_spread'') (PInt 0)"
  let ?c5 = "\<not> isinstance_int (dict_get data ''max_retries'') \<or>
     \<not> (py_le (PInt 1) (dict_get data ''max_retries'') \<and> py_le (dict_get data ''max_retries'') (PInt 100))"
  from assms have n: "\<not> ?c1" "\<not> ?c2" "\<not> ?c3" "\<not> ?c4" "\<not> ?c5"
    unfolding validate_config_def Let_def by (simp_all split: if_splits)
  from assms n have r: "(case py_float (dict_get data ''fetch_interval'') of
           Inl err \<Rightarrow> Inl err
         | Inr fi \<Rightarrow>
            (case py_float (dict_get data ''min_spread'') of
               Inl err \<Rightarrow> Inl err
             | Inr ms \<Rightarrow>
                Inr \<lparr>market_pairs = dict_get data ''market_pairs'',
                     max_cycles = dict_get data ''max_cycles'', fetch_interval = fi,
                     min_spread = ms, max_retries = dict_get data ''max_retries''\<rparr>)) = Inr c"
    unfolding validate_config_def Let_def by (simp only: if_False)
  then obtain fi ms where f: "py_float (dict_get data ''fetch_interval'') = Inr fi"
    "py_float (dict_get data ''min_spread'') = Inr ms"
    "c = \<lparr>market_pairs = dict_get data ''market_pairs'',
                     max_cycles = dict_get data ''max_cycles'', fetch_interval = fi,
                     min_spread = ms, max_retries = dict_get data ''max_retries''\<rparr>"
    by (auto split: sum.splits)
  from n(1) have "spec_nonempty_list (dict_get data ''market_pairs'')"
    by (simp only: check_list) simp
  moreover from n(2) have "spec_int_in 1 10000 (bool_as_int (dict_get data ''max_cycles''))"
    by (simp only: check_int_in) simp
  moreover from n(5) have "spec_int_in 1 100 (bool_as_int (dict_get data ''max_retries''))"
    by (simp only: check_int_in) simp
  ultimately show ?thesis using n(3,4) f by simp
qed

lemma load_config_Inr:
  assumes "load_config w path = Inr c"
  shows "\<exists>data. files w (cfg_path w path) = Document data \<and> validate_config data = Inr c"
  using assms by (auto simp: load_config_def read_config_file_def split: fs_entry.splits sum.splits)

subsection \<open>The resolver\<close>

lemma ascii_upper_kraken: "str_upper ascii_ops ''kraken'' = ''KRAKEN''"
proof -
  have "ascii_upper ''kraken'' = ''KRAKEN''" by code_simp
  then show ?thesis by (simp add: ascii_ops_def)
qed

lemma get_api_key_stored:
  assumes "name \<noteq> []" "keyring_get_password w ''arbbot'' name = Inr (PStr k)" "k \<noteq> []"
  shows "get_api_key py w (PStr name) = Inr (PStr k)"
  using assms by (simp add: get_api_key_def)

lemma get_api_key_fallback_found:
  assumes "name \<noteq> []" "keyring_get_password w ''arbbot'' name = Inr stored" "\<not> truthy stored"
    and "getenv py w (str_upper py name) = Inr (PStr v)" "v \<noteq> []"
  shows "get_api_key py w (PStr name) = Inr (PStr v)"
  using assms by (simp add: get_api_key_def)

lemma get_api_key_fallback_absent:
  assumes "name \<noteq> []" "keyring_get_password w ''arbbot'' name = Inr stored" "\<not> truthy stored"
    and "getenv py w (str_upper py name) = Inr PNone \<or>
         getenv py w (str_upper py name) = Inr (PStr [])"
  shows "get_api_key py w (PStr name) = Inl (CredentialError (not_found_message name))"
  using assms by (auto simp: get_api_key_def)

lemma get_api_key_fallback_raises:
  assumes "name \<noteq> []" "keyring_get_password w ''arbbot'' name = Inr stored" "\<not> truthy stored"
    and "\<not> env_encodable py (str_upper py name)"
  shows "get_api_key py w (PStr name) = Inl (UnicodeEncodeError ''surrogates not allowed'')"
  using assms by (simp add: get_api_key_def getenv_def)

lemma getenv_value: "getenv py w name = Inr key \<Longrightarrow> key = PNone \<or> isinstance_str key"
  by (auto simp: getenv_def split: if_splits option.splits)

lemma get_api_key_result:
  assumes "get_api_key py w arg = Inr r"
  shows "\<exists>s. r = PStr s \<and> s \<noteq> []"
proof -
  from assms obtain name stored where a: "arg = PStr name" "name \<noteq> []"
    "keyring_get_password w ''arbbot'' name = Inr stored"
    by (auto simp: get_api_key_def split: pyval.splits if_splits sum.splits)
  from assms a obtain key where k:
    "(if \<not> truthy stored then getenv py w (str_upper py name) else Inr stored) = Inr key"
    by (auto simp: get_api_key_def split: sum.splits)
  from assms a k have "key = PNone \<or> isinstance_str key" "truthy key" "r = key"
    by (auto simp: get_api_key_def split: if_splits)
  then show ?thesis by (cases key) auto
qed

section \<open>The configuration loader: claims\<close>

text \<open>
  What holds of valid documents. For every document that holds the five fields within
  their documented bounds, and whose \<open>fetch_interval\<close> and \<open>min_spread\<close>, where they are
  integers, are below \<open>2 ^ 1024 - 2 ^ 970\<close> in magnitude (the integers \<^verbatim>\<open>float()\<close>
  converts), \<^verbatim>\<open>load_config\<close> returns a Config whose \<open>market_pairs\<close>, \<open>max_cycles\<close>
  and \<open>max_retries\<close> are the values of the document and whose \<open>fetch_interval\<close> and
  \<open>min_spread\<close> are their conversions by \<^verbatim>\<open>float()\<close>: a float is kept as it is, and
  an integer below \<open>2 ^ 53\<close> in magnitude becomes the float of the same value.
\<close>

theorem load_config_returns_validated_values:
  assumes doc: "files w (cfg_path w path) = Document data"
    and ok: "within_bounds data"
    and fi: "fits_float (field_value data Fetch_interval)"
    and ms: "fits_float (field_value data Min_spread)"
  shows "\<exists>interval spread.
           load_config w path =
             Inr \<lparr>market_pairs = field_value data Market_pairs,
                  max_cycles = field_value data Max_cycles,
                  fetch_interval = interval,
                  min_spread = spread,
                  max_retries = field_value data Max_retries\<rparr> \<and>
           py_float (field_value data Fetch_interval) = Inr interval \<and>
           py_float (field_value data Min_spread) = Inr spread \<and>
           (\<forall>x. field_value data Fetch_interval = PFloat x \<longrightarrow> interval = x) \<and>
           (\<forall>x. field_value data Min_spread = PFloat x \<longrightarrow> spread = x) \<and>
           (\<forall>i. field_value data Fetch_interval = PInt i \<and> \<bar>i\<bar> < 2 ^ 53 \<longrightarrow>
                interval = Finite (of_int i)) \<and>
           (\<forall>i. field_value data Min_spread = PInt i \<and> \<bar>i\<bar> < 2 ^ 53 \<longrightarrow>
                spread = Finite (of_int i))"
proof -
  from ok have b:
    "spec_nonempty_list (dict_get data ''market_pairs'')"
    "spec_int_in 1 10000 (dict_get data ''max_cycles'')"
    "spec_positive_number (dict_get data ''fetch_interval'')"
    "spec_nonneg_number (dict_get data ''min_spread'')"
    "spec_int_in 1 100 (dict_get data ''max_retries'')"
    by (simp_all add: within_bounds_def field_value_def)
  from b(3) fi obtain interval where i: "py_float (dict_get data ''fetch_interval'') = Inr interval"
    using py_float_fits[OF spec_positive_isinstance] by (auto simp: field_value_def)
  from b(4) ms obtain spread where s: "py_float (dict_get data ''min_spread'') = Inr spread"
    using py_float_fits[OF spec_nonneg_isinstance] by (auto simp: field_value_def)
  have "validate_config data =
      Inr \<lparr>market_pairs = dict_get data ''market_pairs'',
                  max_cycles = dict_get data ''max_cycles'',
                  fetch_interval = interval, min_spread = spread,
                  max_retries = dict_get data ''max_retries''\<rparr>"
    using b by (subst validate_config_passes)
      (simp_all add: spec_int_in_bool_as_int spec_positive_bool_as_int spec_nonneg_bool_as_int i s)
  then have l: "load_config w path =
      Inr \<lparr>market_pairs = field_value data Market_pairs,
           max_cycles = field_value data Max_cycles,
           fetch_interval = interval, min_spread = spread,
           max_retries = field_value data Max_retries\<rparr>"
    by (simp add: load_config_document[OF doc] field_value_def)
  have fx: "interval = x" if "field_value data Fetch_interval = PFloat x" for x
    using that i by (simp add: field_value_def)
  have sx: "spread = x" if "field_value data Min_spread = PFloat x" for x
    using that s by (simp add: field_value_def)
  have fe: "interval = Finite (of_int k)"
    if "field_value data Fetch_interval = PInt k \<and> \<bar>k\<bar> < 2 ^ 53" for k
    using that i int_to_float_exact[of k] by (simp add: field_value_def)
  have se: "spread = Finite (of_int k)"
    if "field_value data Min_spread = PInt k \<and> \<bar>k\<bar> < 2 ^ 53" for k
    using that s int_to_float_exact[of k] by (simp add: field_value_def)
  from l i s fx sx fe se show ?thesis
    unfolding field_value_def by (intro exI conjI allI impI) simp_all
qed

theorem load_config_returns_validated_values_witness:
  "within_bounds example_document \<and>
   fits_float (field_value example_document Fetch_interval) \<and>
   fits_float (field_value example_document Min_spread) \<and>
   load_config example_world None =
     Inr \<lparr>market_pairs = PList [PStr ''BTC-USD'', PStr ''ETH-USD''],
          max_cycles = PInt 100,
          fetch_interval = Finite 5,
          min_spread = Finite (2 / 1000),
          max_retries = PInt 3\<rparr>"
proof -
  have doc: "files example_world (cfg_path example_world None) = Document example_document"
    by (simp add: example_path example_file)
  have ok: "within_bounds example_document"
    by (simp add: within_bounds_def field_value_def dict_get_def example_document_def)
  have fi: "fits_float (field_value example_document Fetch_interval)"
    and ms: "fits_float (field_value example_document Min_spread)"
    by (simp_all add: field_value_def dict_get_def example_document_def)
  from load_config_returns_validated_values[OF doc ok fi ms] ok fi ms show ?thesis
    by (clarsimp simp: field_value_def dict_get_def example_document_def)
qed

text \<open>
  Claim C1 at a document whose \<open>fetch_interval\<close> is the integer \<open>2 ^ 1024\<close>, all other
  fields valid. The document is within the documented bounds (an integer is a number,
  and this one is greater than 0) and passes the five checks; then \<^verbatim>\<open>float(interval)\<close>
  raises OverflowError, which nothing catches: \<^verbatim>\<open>load_config\<close> returns no Config and
  fails with an error that is not ConfigError. The claim fails there.
\<close>

theorem load_config_overflow_on_huge_interval:
  "within_bounds huge_interval_document \<and>
   load_config
     (example_world\<lparr>files := (\<lambda>p. Document huge_interval_document)\<rparr>) None =
     Inl (OverflowError ''int too large to convert to float'')"
proof -
  have ok: "within_bounds huge_interval_document"
    by (simp add: within_bounds_def field_value_def dict_get_def huge_interval_document_def
        example_document_def)
  have big: "int_to_float (2 ^ 1024) = Inl (OverflowError ''int too large to convert to float'')"
    by (rule int_to_float_too_large) simp
  have "validate_config huge_interval_document =
          Inl (OverflowError ''int too large to convert to float'')"
    using ok
    by (subst validate_config_passes)
       (simp_all add: within_bounds_def field_value_def dict_get_def huge_interval_document_def
          example_document_def big del: power_numeral)
  then show ?thesis using ok by (simp add: load_config_def read_config_file_def)
qed

text \<open>
  Claim C2, as amended. Read a boolean as the integer it is in Python (\<^verbatim>\<open>True\<close> as
  1, \<^verbatim>\<open>False\<close> as 0). For every document in which a field is missing or, so read,
  violates its documented type or range constraint, other than a \<open>fetch_interval\<close> or
  a \<open>min_spread\<close> that is NaN, and in which every field checked before it (in the
  order \<open>market_pairs\<close>, \<open>max_cycles\<close>, \<open>fetch_interval\<close>, \<open>min_spread\<close>,
  \<open>max_retries\<close>) satisfies its constraint, \<^verbatim>\<open>load_config\<close> raises ConfigError with
  a message that contains the name of that field. In particular this is so when that
  field is the only one at fault.
\<close>

theorem load_config_rejects_first_violation:
  assumes doc: "files w (cfg_path w path) = Document data"
    and viol: "data (field_name f) = None \<or> \<not> spec_field_ok f (bool_as_int (field_value data f))"
    and notnan: "f = Fetch_interval \<or> f = Min_spread \<longrightarrow> field_value data f \<noteq> PFloat NaN"
    and before: "\<forall>g \<in> set (checked_before f). spec_field_ok g (bool_as_int (field_value data g))"
  shows "\<exists>msg. load_config w path = Inl (ConfigError msg) \<and> sublist (field_name f) msg"
proof -
  have v: "\<not> spec_field_ok f (bool_as_int (field_value data f))"
    using viol missing_field_violates by blast
  have l: "load_config w path = validate_config data"
    by (rule load_config_document[OF doc])
  show ?thesis
  proof (cases f)
    case Market_pairs
    then show ?thesis
      using v reject_market_pairs[of data] names_market_pairs
      by (simp add: l field_value_def spec_nonempty_list_bool_as_int)
  next
    case Max_cycles
    then show ?thesis
      using v before reject_max_cycles[of data] names_max_cycles
      by (simp add: l field_value_def spec_nonempty_list_bool_as_int)
  next
    case Fetch_interval
    then show ?thesis
      using v before notnan reject_fetch_interval[of data] names_fetch_interval
      by (simp add: l field_value_def spec_nonempty_list_bool_as_int)
  next
    case Min_spread
    then show ?thesis
      using v before notnan reject_min_spread[of data] names_min_spread
      by (simp add: l field_value_def spec_nonempty_list_bool_as_int)
  next
    case Max_retries
    then show ?thesis
      using v before reject_max_retries[of data] names_max_retries
      by (simp add: l field_value_def spec_nonempty_list_bool_as_int)
  qed
qed

theorem load_config_rejects_first_violation_witness:
  "\<not> spec_field_ok Max_cycles (bool_as_int (field_value zero_cycles_document Max_cycles)) \<and>
   spec_field_ok Market_pairs (bool_as_int (field_value zero_cycles_document Market_pairs)) \<and>
   (\<exists>msg. load_config (world_holding zero_cycles_document) None = Inl (ConfigError msg) \<and>
      sublist ''max_cycles'' msg)"
proof -
  have v: "\<not> spec_field_ok Max_cycles (bool_as_int (field_value zero_cycles_document Max_cycles))"
    and n: "Max_cycles = Fetch_interval \<or> Max_cycles = Min_spread \<longrightarrow>
      field_value zero_cycles_document Max_cycles \<noteq> PFloat NaN"
    and b: "spec_field_ok Market_pairs (bool_as_int (field_value zero_cycles_document Market_pairs))"
    by (simp_all add: field_value_def dict_get_def zero_cycles_document_def example_document_def)
  from b have b': "\<forall>g \<in> set (checked_before Max_cycles).
      spec_field_ok g (bool_as_int (field_value zero_cycles_document g))" by simp
  from v have v': "zero_cycles_document (field_name Max_cycles) = None \<or>
      \<not> spec_field_ok Max_cycles (bool_as_int (field_value zero_cycles_document Max_cycles))" ..
  from load_config_rejects_first_violation[OF world_holding_file v' n b'] v b
  show ?thesis by simp
qed

text \<open>
  As stated, with a boolean counted as a violation of the integer type, the claim
  fails: \<^verbatim>\<open>isinstance(True, int)\<close> holds, so a \<open>max_cycles\<close> of \<^verbatim>\<open>true\<close> passes the
  check and a Config is returned.
\<close>

theorem load_config_boolean_counterexample:
  "\<not> spec_field_ok Max_cycles (field_value bool_cycles_document Max_cycles) \<and>
   load_config (world_holding bool_cycles_document) None =
     Inr \<lparr>market_pairs = PList [PStr ''BTC-USD'', PStr ''ETH-USD''],
          max_cycles = PBool True,
          fetch_interval = Finite 5,
          min_spread = Finite (2 / 1000),
          max_retries = PInt 3\<rparr>"
proof -
  have "validate_config bool_cycles_document =
     Inr \<lparr>market_pairs = PList [PStr ''BTC-USD'', PStr ''ETH-USD''],
          max_cycles = PBool True,
          fetch_interval = Finite 5,
          min_spread = Finite (2 / 1000),
          max_retries = PInt 3\<rparr>"
    by (subst validate_config_passes)
       (simp_all add: dict_get_def bool_cycles_document_def example_document_def)
  then show ?thesis
    by (simp add: load_config_document[OF world_holding_file])
       (simp add: field_value_def dict_get_def bool_cycles_document_def example_document_def)
qed

text \<open>
  Claim C5, as amended. \<^verbatim>\<open>load_config\<close> resolves the path by first-match precedence:
  the explicit argument when it is supplied and not the empty string; otherwise the
  value of \<^verbatim>\<open>ARBBOT_CONFIG\<close> when it is set and not the empty string; otherwise the
  default path, which is \<^verbatim>\<open>os.path.join\<close> of the working directory (as it was when
  the module was imported) and \<^verbatim>\<open>config.toml\<close>, that is the directory followed by
  \<^verbatim>\<open>/config.toml\<close> unless the directory ends in a slash. The file at that path is the
  one read: the result is decided by what is at that path, and is the same when every
  other file is gone.
\<close>

theorem load_config_path_precedence:
  "cfg_path w path = resolved_path w path \<and>
   load_config w path =
     (case files w (resolved_path w path) of
        NoFile \<Rightarrow> Inl (ConfigError (''Config file not found: '' @ resolved_path w path))
      | Unparsable e \<Rightarrow>
          Inl (ConfigError (''Failed to parse config ('' @ resolved_path w path @ ''): '' @ e))
      | Document d \<Rightarrow> validate_config d) \<and>
   load_config (only_file w (resolved_path w path)) path = load_config w path \<and>
   (import_cwd w \<noteq> [] \<and> last (import_cwd w) \<noteq> CHR ''/'' \<longrightarrow>
      DEFAULT_CONFIG_FILE w = import_cwd w @ ''/config.toml'')"
proof -
  have p: "cfg_path w path = resolved_path w path" by (rule cfg_path_resolved)
  have l: "load_config w path =
     (case files w (resolved_path w path) of
        NoFile \<Rightarrow> Inl (ConfigError (''Config file not found: '' @ resolved_path w path))
      | Unparsable e \<Rightarrow>
          Inl (ConfigError (''Failed to parse config ('' @ resolved_path w path @ ''): '' @ e))
      | Document d \<Rightarrow> validate_config d)"
    using load_config_by_entry[of w path] unfolding p .
  have q: "cfg_path (only_file w (resolved_path w path)) path = resolved_path w path"
    by (simp add: cfg_path_only_file p)
  have f: "files (only_file w (resolved_path w path)) (resolved_path w path) =
        files w (resolved_path w path)"
    by (simp add: only_file_def)
  have "load_config (only_file w (resolved_path w path)) path = load_config w path"
    using load_config_by_entry[of "only_file w (resolved_path w path)" path]
    unfolding q f l .
  with p l default_path_plain[of w] show ?thesis by blast
qed

theorem load_config_path_precedence_witness:
  "resolved_path tier_world (Some ''/tmp/explicit.toml'') = ''/tmp/explicit.toml'' \<and>
   resolved_path tier_world None = ''/etc/arbbot.toml'' \<and>
   resolved_path (tier_world\<lparr>environ := Map.empty\<rparr>) None = ''/srv/arbbot/config.toml'' \<and>
   load_config tier_world (Some ''/tmp/explicit.toml'') = validate_config (tier_document 1) \<and>
   load_config tier_world None = validate_config (tier_document 2) \<and>
   load_config (tier_world\<lparr>environ := Map.empty\<rparr>) None = validate_config (tier_document 3) \<and>
   DEFAULT_CONFIG_FILE tier_world = ''/srv/arbbot/config.toml''"
proof -
  have c: "import_cwd tier_world \<noteq> [] \<and> last (import_cwd tier_world) \<noteq> CHR ''/''"
    "import_cwd tier_world @ ''/config.toml'' = ''/srv/arbbot/config.toml''"
    by (simp_all add: tier_world_def)
  have r: "resolved_path tier_world (Some ''/tmp/explicit.toml'') = ''/tmp/explicit.toml''"
    "resolved_path tier_world None = ''/etc/arbbot.toml''"
    "resolved_path (tier_world\<lparr>environ := Map.empty\<rparr>) None = ''/srv/arbbot/config.toml''"
    by (simp_all add: resolved_path_def env_or_default_def tier_world_def CONFIG_PATH_ENV_def
        DEFAULT_CONFIG_FILE_def path_join_def)
  have f: "files tier_world ''/tmp/explicit.toml'' = Document (tier_document 1)"
    "files tier_world ''/etc/arbbot.toml'' = Document (tier_document 2)"
    "files tier_world ''/srv/arbbot/config.toml'' = Document (tier_document 3)"
    by (simp_all add: tier_world_def)
  show ?thesis
    using load_config_path_precedence[of tier_world "Some ''/tmp/explicit.toml''"]
      load_config_path_precedence[of tier_world None]
      load_config_path_precedence[of "tier_world\<lparr>environ := Map.empty\<rparr>" None] c
    by (simp add: r f)
qed

text \<open>
  As stated, with every supplied argument taking precedence, the claim fails: the
  empty string is supplied, yet the file read is the one \<^verbatim>\<open>ARBBOT_CONFIG\<close> names.
\<close>

theorem load_config_empty_path_counterexample:
  "stated_path tier_world (Some []) = [] \<and>
   files tier_world [] = NoFile \<and>
   cfg_path tier_world (Some []) = ''/etc/arbbot.toml'' \<and>
   load_config tier_world (Some []) =
     Inr \<lparr>market_pairs = PList [PStr ''BTC-USD'', PStr ''ETH-USD''],
          max_cycles = PInt 2,
          fetch_interval = Finite 5,
          min_spread = Finite (2 / 1000),
          max_retries = PInt 3\<rparr>"
proof -
  have p: "cfg_path tier_world (Some []) = ''/etc/arbbot.toml''"
    by (simp add: cfg_path_def str_or_def tier_world_def CONFIG_PATH_ENV_def)
  have f: "files tier_world ''/etc/arbbot.toml'' = Document (tier_document 2)"
    "files tier_world [] = NoFile"
    by (simp_all add: tier_world_def)
  have "load_config tier_world (Some []) = validate_config (tier_document 2)"
    by (simp add: load_config_by_entry p f)
  then show ?thesis
    by (simp add: tier_document_valid p f stated_path_def)
qed

text \<open>
  Claim C8. When the resolved path references no regular file, \<^verbatim>\<open>load_config\<close>
  raises ConfigError with the message \<^verbatim>\<open>Config file not found: \<close> followed by the
  resolved path; the message contains that path.
\<close>

theorem load_config_file_not_found:
  assumes "files w (cfg_path w path) = NoFile"
  shows "load_config w path = Inl (ConfigError (''Config file not found: '' @ cfg_path w path)) \<and>
         sublist (cfg_path w path) (''Config file not found: '' @ cfg_path w path)"
proof
  show "load_config w path = Inl (ConfigError (''Config file not found: '' @ cfg_path w path))"
    using assms by (simp add: load_config_by_entry)
  show "sublist (cfg_path w path) (''Config file not found: '' @ cfg_path w path)"
    by (rule sublist_append_leftI)
qed

theorem load_config_file_not_found_witness:
  "files tier_world (cfg_path tier_world (Some ''/nowhere.toml'')) = NoFile \<and>
   load_config tier_world (Some ''/nowhere.toml'') =
     Inl (ConfigError ''Config file not found: /nowhere.toml'') \<and>
   sublist ''/nowhere.toml'' ''Config file not found: /nowhere.toml''"
proof -
  have p: "cfg_path tier_world (Some ''/nowhere.toml'') = ''/nowhere.toml''"
    by (simp add: cfg_path_def str_or_def)
  have f: "files tier_world (cfg_path tier_world (Some ''/nowhere.toml'')) = NoFile"
    by (simp add: p) (simp add: tier_world_def)
  from load_config_file_not_found[OF f] f show ?thesis by (simp add: p)
qed

text \<open>
  Claim C9. An explicit path that is the empty string is treated as no path: the
  resolved path and the result of \<^verbatim>\<open>load_config\<close> are those of a call without a
  path, so resolution goes on to \<^verbatim>\<open>ARBBOT_CONFIG\<close> and then to the default path.
  An \<^verbatim>\<open>ARBBOT_CONFIG\<close> set to the empty string falls through to the default path
  likewise.
\<close>

theorem load_config_empty_path_falls_through:
  "cfg_path w (Some []) = cfg_path w None \<and>
   load_config w (Some []) = load_config w None \<and>
   cfg_path w None =
     (case environ w ''ARBBOT_CONFIG'' of
        Some e \<Rightarrow> if e = [] then DEFAULT_CONFIG_FILE w else e
      | None \<Rightarrow> DEFAULT_CONFIG_FILE w) \<and>
   (environ w ''ARBBOT_CONFIG'' = Some [] \<longrightarrow>
      cfg_path w (Some []) = DEFAULT_CONFIG_FILE w \<and> cfg_path w None = DEFAULT_CONFIG_FILE w)"
  by (simp add: load_config_def cfg_path_def str_or_def CONFIG_PATH_ENV_def split: option.splits)

theorem load_config_empty_path_falls_through_witness:
  "cfg_path tier_world (Some []) = ''/etc/arbbot.toml'' \<and>
   cfg_path tier_world None = ''/etc/arbbot.toml'' \<and>
   load_config tier_world (Some []) = load_config tier_world None \<and>
   environ (tier_world\<lparr>environ := [''ARBBOT_CONFIG'' \<mapsto> []]\<rparr>) ''ARBBOT_CONFIG'' = Some [] \<and>
   cfg_path (tier_world\<lparr>environ := [''ARBBOT_CONFIG'' \<mapsto> []]\<rparr>) (Some []) = ''/srv/arbbot/config.toml'' \<and>
   cfg_path (tier_world\<lparr>environ := [''ARBBOT_CONFIG'' \<mapsto> []]\<rparr>) None = ''/srv/arbbot/config.toml''"
proof -
  have e: "environ tier_world ''ARBBOT_CONFIG'' = Some ''/etc/arbbot.toml''"
    "environ (tier_world\<lparr>environ := [''ARBBOT_CONFIG'' \<mapsto> []]\<rparr>) ''ARBBOT_CONFIG'' = Some []"
    by (simp_all add: tier_world_def)
  have d: "DEFAULT_CONFIG_FILE (tier_world\<lparr>environ := [''ARBBOT_CONFIG'' \<mapsto> []]\<rparr>) = ''/srv/arbbot/config.toml''"
    by (simp add: DEFAULT_CONFIG_FILE_def path_join_def tier_world_def)
  show ?thesis
    using load_config_empty_path_falls_through[of tier_world]
      load_config_empty_path_falls_through[of "tier_world\<lparr>environ := [''ARBBOT_CONFIG'' \<mapsto> []]\<rparr>"]
    by (simp add: e d)
qed

text \<open>
  Claim C6 at a document whose \<open>fetch_interval\<close> is NaN (TOML \<^verbatim>\<open>nan\<close>), all other
  fields valid. The check \<^verbatim>\<open>interval <= 0\<close> is false for NaN, so \<^verbatim>\<open>load_config\<close>
  returns a Config whose \<open>fetch_interval\<close> is NaN, which is not greater than 0: the
  claim fails there.
\<close>

theorem load_config_accepts_nan_interval:
  "load_config (world_holding nan_interval_document) None =
     Inr \<lparr>market_pairs = PList [PStr ''BTC-USD'', PStr ''ETH-USD''],
          max_cycles = PInt 100, fetch_interval = NaN,
          min_spread = Finite (2 / 1000), max_retries = PInt 3\<rparr> \<and>
   \<not> config_within_bounds
     \<lparr>market_pairs = PList [PStr ''BTC-USD'', PStr ''ETH-USD''],
      max_cycles = PInt 100, fetch_interval = NaN,
      min_spread = Finite (2 / 1000), max_retries = PInt 3\<rparr>"
proof -
  have "validate_config nan_interval_document =
     Inr \<lparr>market_pairs = PList [PStr ''BTC-USD'', PStr ''ETH-USD''],
          max_cycles = PInt 100, fetch_interval = NaN,
          min_spread = Finite (2 / 1000), max_retries = PInt 3\<rparr>"
    by (simp add: validate_config_def dict_get_def nan_interval_document_def example_document_def
        py_le_def py_lt_def)
  then show ?thesis
    by (simp add: load_config_document[OF world_holding_file] config_within_bounds_def)
qed

text \<open>
  The bounds that do hold of every result: whenever \<^verbatim>\<open>load_config\<close> returns a Config
  whose \<open>fetch_interval\<close> and \<open>min_spread\<close> are not NaN, every field of it lies within
  its documented bounds.
\<close>

theorem load_config_result_within_bounds:
  assumes "load_config w path = Inr c" "fetch_interval c \<noteq> NaN" "min_spread c \<noteq> NaN"
  shows "config_within_bounds c"
proof -
  from load_config_Inr[OF assms(1)] obtain data where v: "validate_config data = Inr c" by blast
  note f = validate_config_Inr[OF v]
  have "float_lt (Finite 0) (fetch_interval c)"
    using f assms(2) by (intro py_float_positive[of "dict_get data ''fetch_interval''"]) simp_all
  moreover have "float_le (Finite 0) (min_spread c)"
    using f assms(3) by (intro py_float_nonneg[of "dict_get data ''min_spread''"]) simp_all
  ultimately show ?thesis using f by (simp add: config_within_bounds_def)
qed

theorem load_config_result_within_bounds_witness:
  "load_config example_world None =
     Inr \<lparr>market_pairs = PList [PStr ''BTC-USD'', PStr ''ETH-USD''],
          max_cycles = PInt 100, fetch_interval = Finite 5,
          min_spread = Finite (2 / 1000), max_retries = PInt 3\<rparr> \<and>
   config_within_bounds
     \<lparr>market_pairs = PList [PStr ''BTC-USD'', PStr ''ETH-USD''],
      max_cycles = PInt 100, fetch_interval = Finite 5,
      min_spread = Finite (2 / 1000), max_retries = PInt 3\<rparr>"
proof -
  have "validate_config example_document =
     Inr \<lparr>market_pairs = PList [PStr ''BTC-USD'', PStr ''ETH-USD''],
          max_cycles = PInt 100, fetch_interval = Finite 5,
          min_spread = Finite (2 / 1000), max_retries = PInt 3\<rparr>"
    by (subst validate_config_passes) (simp_all add: dict_get_def example_document_def)
  then have l: "load_config example_world None =
     Inr \<lparr>market_pairs = PList [PStr ''BTC-USD'', PStr ''ETH-USD''],
          max_cycles = PInt 100, fetch_interval = Finite 5,
          min_spread = Finite (2 / 1000), max_retries = PInt 3\<rparr>"
    by (simp add: load_config_by_entry example_path example_file)
  from load_config_result_within_bounds[OF l] l show ?thesis by simp
qed

text \<open>
  Claim C10. The integer checks accept booleans: for every document whose
  \<open>max_cycles\<close> is the boolean true, whose \<open>max_retries\<close> is the boolean true or an
  integer in [1, 100], and whose other fields are valid (and convertible by
  \<^verbatim>\<open>float()\<close>), \<^verbatim>\<open>load_config\<close> returns a Config; its \<open>max_cycles\<close> is that boolean,
  whose numeric value is that of the integer 1.
\<close>

theorem load_config_accepts_boolean:
  assumes doc: "files w (cfg_path w path) = Document data"
    and cycles: "field_value data Max_cycles = PBool True"
    and pairs: "spec_field_ok Market_pairs (field_value data Market_pairs)"
    and interval: "spec_field_ok Fetch_interval (field_value data Fetch_interval)"
      "fits_float (field_value data Fetch_interval)"
    and spread: "spec_field_ok Min_spread (field_value data Min_spread)"
      "fits_float (field_value data Min_spread)"
    and retries: "field_value data Max_retries = PBool True \<or>
      spec_field_ok Max_retries (field_value data Max_retries)"
  shows "\<exists>c. load_config w path = Inr c \<and>
             max_cycles c = PBool True \<and>
             numeric (max_cycles c) = numeric (PInt 1) \<and>
             max_retries c = field_value data Max_retries"
proof -
  from interval obtain fi where i: "py_float (dict_get data ''fetch_interval'') = Inr fi"
    using py_float_fits[OF spec_positive_isinstance] by (auto simp: field_value_def)
  from spread obtain ms where s: "py_float (dict_get data ''min_spread'') = Inr ms"
    using py_float_fits[OF spec_nonneg_isinstance] by (auto simp: field_value_def)
  have r: "spec_int_in 1 100 (bool_as_int (dict_get data ''max_retries''))"
    using retries by (auto simp: field_value_def spec_int_in_bool_as_int)
  have "validate_config data =
      Inr \<lparr>market_pairs = dict_get data ''market_pairs'',
           max_cycles = dict_get data ''max_cycles'',
           fetch_interval = fi, min_spread = ms,
           max_retries = dict_get data ''max_retries''\<rparr>"
    using cycles pairs interval(1) spread(1) r
    by (subst validate_config_passes)
       (simp_all add: field_value_def spec_positive_bool_as_int spec_nonneg_bool_as_int i s)
  then show ?thesis
    using cycles by (simp add: load_config_document[OF doc] field_value_def)
qed

theorem load_config_accepts_boolean_witness:
  "field_value boolean_document Max_cycles = PBool True \<and>
   field_value boolean_document Max_retries = PBool True \<and>
   (\<exists>c. load_config (world_holding boolean_document) None = Inr c \<and>
        max_cycles c = PBool True \<and>
        numeric (max_cycles c) = Some (Finite 1) \<and>
        max_retries c = PBool True)"
proof -
  have v: "field_value boolean_document Max_cycles = PBool True"
    "spec_field_ok Market_pairs (field_value boolean_document Market_pairs)"
    "spec_field_ok Fetch_interval (field_value boolean_document Fetch_interval)"
    "fits_float (field_value boolean_document Fetch_interval)"
    "spec_field_ok Min_spread (field_value boolean_document Min_spread)"
    "fits_float (field_value boolean_document Min_spread)"
    and r: "field_value boolean_document Max_retries = PBool True"
    by (simp_all add: field_value_def dict_get_def boolean_document_def example_document_def)
  from r have r': "field_value boolean_document Max_retries = PBool True \<or>
      spec_field_ok Max_retries (field_value boolean_document Max_retries)" ..
  from load_config_accepts_boolean[OF world_holding_file v r'] v(1) r
  show ?thesis by simp
qed

section \<open>The credential resolver: claims\<close>

text \<open>
  Claim C3, as amended. For every non-empty \<open>service_name\<close>: when the secret store
  answers a non-empty string for (\<^verbatim>\<open>arbbot\<close>, \<open>service_name\<close>), \<^verbatim>\<open>get_api_key\<close>
  returns it, whatever the environment; when the store answers \<^verbatim>\<open>None\<close>, the empty
  string or another false value, and the lookup of the environment variable named by
  the upper-cased \<open>service_name\<close> gives a non-empty string, \<^verbatim>\<open>get_api_key\<close> returns
  that string. Whatever \<^verbatim>\<open>get_api_key\<close> returns is a non-empty string. This holds
  for every upper-casing and every encoding of names, so for those of Python.
\<close>

theorem get_api_key_precedence:
  assumes "name \<noteq> []"
  shows "(\<forall>k. keyring_get_password w ''arbbot'' name = Inr (PStr k) \<and> k \<noteq> [] \<longrightarrow>
            (\<forall>env. get_api_key py (w\<lparr>environ := env\<rparr>) (PStr name) = Inr (PStr k))) \<and>
         (\<forall>stored v. keyring_get_password w ''arbbot'' name = Inr stored \<and> \<not> truthy stored \<and>
            getenv py w (str_upper py name) = Inr (PStr v) \<and> v \<noteq> [] \<longrightarrow>
            get_api_key py w (PStr name) = Inr (PStr v)) \<and>
         (\<forall>r. get_api_key py w (PStr name) = Inr r \<longrightarrow> (\<exists>s. r = PStr s \<and> s \<noteq> []))"
proof (intro conjI allI impI)
  fix k env
  assume "keyring_get_password w ''arbbot'' name = Inr (PStr k) \<and> k \<noteq> []"
  then show "get_api_key py (w\<lparr>environ := env\<rparr>) (PStr name) = Inr (PStr k)"
    using assms by (intro get_api_key_stored) simp_all
next
  fix stored v
  assume "keyring_get_password w ''arbbot'' name = Inr stored \<and> \<not> truthy stored \<and>
            getenv py w (str_upper py name) = Inr (PStr v) \<and> v \<noteq> []"
  then show "get_api_key py w (PStr name) = Inr (PStr v)"
    using assms by (intro get_api_key_fallback_found[of name w stored]) simp_all
next
  fix r
  assume "get_api_key py w (PStr name) = Inr r"
  then show "\<exists>s. r = PStr s \<and> s \<noteq> []" by (rule get_api_key_result)
qed

theorem get_api_key_precedence_witness:
  "get_api_key ascii_ops
     (credential_world (Inr (PStr ''store-secret'')) [''KRAKEN'' \<mapsto> ''env-secret''])
     (PStr ''kraken'') = Inr (PStr ''store-secret'') \<and>
   get_api_key ascii_ops (credential_world (Inr (PStr ''store-secret'')) Map.empty)
     (PStr ''kraken'') = Inr (PStr ''store-secret'') \<and>
   get_api_key ascii_ops (credential_world (Inr PNone) [''KRAKEN'' \<mapsto> ''env-secret''])
     (PStr ''kraken'') = Inr (PStr ''env-secret'') \<and>
   get_api_key ascii_ops (credential_world (Inr (PStr [])) [''KRAKEN'' \<mapsto> ''env-secret''])
     (PStr ''kraken'') = Inr (PStr ''env-secret'')"
proof -
  let ?w = "credential_world (Inr (PStr ''store-secret'')) [''KRAKEN'' \<mapsto> ''env-secret'']"
  let ?n = "credential_world (Inr PNone) [''KRAKEN'' \<mapsto> ''env-secret'']"
  let ?e = "credential_world (Inr (PStr [])) [''KRAKEN'' \<mapsto> ''env-secret'']"
  have n: "''kraken'' \<noteq> []" by simp
  have s: "keyring_get_password ?w ''arbbot'' ''kraken'' = Inr (PStr ''store-secret'')"
    "keyring_get_password ?n ''arbbot'' ''kraken'' = Inr PNone"
    "keyring_get_password ?e ''arbbot'' ''kraken'' = Inr (PStr [])"
    by (simp_all add: credential_world_def)
  have e: "getenv ascii_ops ?n (str_upper ascii_ops ''kraken'') = Inr (PStr ''env-secret'')"
    "getenv ascii_ops ?e (str_upper ascii_ops ''kraken'') = Inr (PStr ''env-secret'')"
    by (simp_all add: ascii_upper_kraken) (simp_all add: getenv_def ascii_ops_def credential_world_def)
  have u: "?w\<lparr>environ := [''KRAKEN'' \<mapsto> ''env-secret'']\<rparr> = ?w"
    "?w\<lparr>environ := Map.empty\<rparr> = credential_world (Inr (PStr ''store-secret'')) Map.empty"
    by (simp_all add: credential_world_def)
  from get_api_key_precedence[OF n, of ?w ascii_ops] s(1)
  have 1: "get_api_key ascii_ops (?w\<lparr>environ := [''KRAKEN'' \<mapsto> ''env-secret'']\<rparr>) (PStr ''kraken'') = Inr (PStr ''store-secret'')"
    and 2: "get_api_key ascii_ops (?w\<lparr>environ := Map.empty\<rparr>) (PStr ''kraken'') = Inr (PStr ''store-secret'')"
    by simp_all
  from get_api_key_precedence[OF n, of ?n ascii_ops] s(2) e(1)
  have 3: "get_api_key ascii_ops ?n (PStr ''kraken'') = Inr (PStr ''env-secret'')" by simp
  from get_api_key_precedence[OF n, of ?e ascii_ops] s(3) e(2)
  have 4: "get_api_key ascii_ops ?e (PStr ''kraken'') = Inr (PStr ''env-secret'')" by simp
  from 1 2 3 4 show ?thesis unfolding u by (intro conjI)
qed

text \<open>
  As stated, with the fallback taken whenever the store gives no non-empty string, the
  claim fails: a store that answers the integer 5 gives no string, the environment
  holds one, and \<^verbatim>\<open>get_api_key\<close> fails its second assertion instead of returning it.
\<close>

theorem get_api_key_store_non_string_counterexample:
  "keyring_get_password (credential_world (Inr (PInt 5)) [''KRAKEN'' \<mapsto> ''env-secret''])
     ''arbbot'' ''kraken'' = Inr (PInt 5) \<and>
   getenv ascii_ops (credential_world (Inr (PInt 5)) [''KRAKEN'' \<mapsto> ''env-secret''])
     (str_upper ascii_ops ''kraken'') = Inr (PStr ''env-secret'') \<and>
   get_api_key ascii_ops (credential_world (Inr (PInt 5)) [''KRAKEN'' \<mapsto> ''env-secret''])
     (PStr ''kraken'') = Inl (AssertionError ''retrieved key must be a string or None'')"
proof (intro conjI)
  show "keyring_get_password (credential_world (Inr (PInt 5)) [''KRAKEN'' \<mapsto> ''env-secret''])
     ''arbbot'' ''kraken'' = Inr (PInt 5)"
    by (simp add: credential_world_def)
  show "getenv ascii_ops (credential_world (Inr (PInt 5)) [''KRAKEN'' \<mapsto> ''env-secret''])
     (str_upper ascii_ops ''kraken'') = Inr (PStr ''env-secret'')"
    by (simp add: ascii_upper_kraken) (simp add: getenv_def ascii_ops_def credential_world_def)
  show "get_api_key ascii_ops (credential_world (Inr (PInt 5)) [''KRAKEN'' \<mapsto> ''env-secret''])
     (PStr ''kraken'') = Inl (AssertionError ''retrieved key must be a string or None'')"
    by (simp add: get_api_key_def credential_world_def)
qed

text \<open>
  Claim C4, as amended. For every non-empty \<open>service_name\<close> for which the secret
  store answers \<^verbatim>\<open>None\<close>, the empty string or another false value, and the lookup of
  the environment variable named by the upper-cased \<open>service_name\<close> gives \<^verbatim>\<open>None\<close>
  (the variable is unset) or the empty string, \<^verbatim>\<open>get_api_key\<close> raises
  CredentialError; its message holds the service name between \<^verbatim>\<open>API key for '\<close> and
  \<^verbatim>\<open>' not found in keyring or environment\<close>. This holds for every upper-casing and
  every encoding of names, so for those of Python.
\<close>

theorem get_api_key_not_found:
  assumes "name \<noteq> []"
    and "keyring_get_password w ''arbbot'' name = Inr stored" "\<not> truthy stored"
    and "getenv py w (str_upper py name) = Inr PNone \<or>
         getenv py w (str_upper py name) = Inr (PStr [])"
  shows "get_api_key py w (PStr name) = Inl (CredentialError (not_found_message name)) \<and>
         not_found_message name =
           (''API key for '' @ [CHR 0x27]) @ name @
           ([CHR 0x27] @ '' not found in keyring or environment'') \<and>
         sublist name (not_found_message name)"
proof (intro conjI)
  show "get_api_key py w (PStr name) = Inl (CredentialError (not_found_message name))"
    using assms by (rule get_api_key_fallback_absent)
  show m: "not_found_message name =
      (''API key for '' @ [CHR 0x27]) @ name @ ([CHR 0x27] @ '' not found in keyring or environment'')"
    by (simp add: not_found_message_def)
  show "sublist name (not_found_message name)"
    by (simp only: m sublist_appendI)
qed

theorem get_api_key_not_found_witness:
  "get_api_key ascii_ops (credential_world (Inr PNone) Map.empty) (PStr ''kraken'') =
     Inl (CredentialError (not_found_message ''kraken'')) \<and>
   sublist ''kraken'' (not_found_message ''kraken'')"
proof -
  let ?w = "credential_world (Inr PNone) Map.empty"
  have n: "''kraken'' \<noteq> []" by simp
  have s: "keyring_get_password ?w ''arbbot'' ''kraken'' = Inr PNone"
    by (simp add: credential_world_def)
  have t: "\<not> truthy PNone" by simp
  have "getenv ascii_ops ?w (str_upper ascii_ops ''kraken'') = Inr PNone"
    by (simp add: getenv_def ascii_ops_def credential_world_def)
  then have e: "getenv ascii_ops ?w (str_upper ascii_ops ''kraken'') = Inr PNone \<or>
      getenv ascii_ops ?w (str_upper ascii_ops ''kraken'') = Inr (PStr [])" ..
  from get_api_key_not_found[OF n s t e] show ?thesis by (intro conjI) (elim conjE, assumption)+
qed

text \<open>
  As stated, the claim fails on the same kind of answer: the store answers the integer
  5, the environment variable is unset, and the failure is the AssertionError of the
  second assertion, not a CredentialError.
\<close>

theorem get_api_key_store_non_string_absent_counterexample:
  "keyring_get_password (credential_world (Inr (PInt 5)) Map.empty) ''arbbot'' ''kraken'' =
     Inr (PInt 5) \<and>
   getenv ascii_ops (credential_world (Inr (PInt 5)) Map.empty) (str_upper ascii_ops ''kraken'') =
     Inr PNone \<and>
   get_api_key ascii_ops (credential_world (Inr (PInt 5)) Map.empty) (PStr ''kraken'') =
     Inl (AssertionError ''retrieved key must be a string or None'')"
  by (simp add: get_api_key_def getenv_def ascii_ops_def credential_world_def)

text \<open>
  Claim C7. For every argument that is not a non-empty string, \<^verbatim>\<open>get_api_key\<close> fails
  with the AssertionError of its first assertion. No lookup is made: the result is the
  same in every world, also in one whose secret store raises. The failure is not a
  CredentialError.
\<close>

theorem get_api_key_rejects_malformed_argument:
  assumes "\<forall>s. arg = PStr s \<longrightarrow> s = []"
  shows "get_api_key py w arg = Inl (AssertionError ''service_name must be a non-empty string'') \<and>
         (\<forall>py' w'. get_api_key py' w' arg = get_api_key py w arg) \<and>
         (\<forall>msg. get_api_key py w arg \<noteq> Inl (CredentialError msg))"
proof -
  have "get_api_key py' w' arg = Inl (AssertionError ''service_name must be a non-empty string'')"
    for py' w'
    using assms by (cases arg) (simp_all add: get_api_key_def)
  then show ?thesis by simp
qed

theorem get_api_key_rejects_malformed_argument_witness:
  "get_api_key ascii_ops (credential_world (Inl (KeyringError ''locked'')) Map.empty) (PStr []) =
     Inl (AssertionError ''service_name must be a non-empty string'') \<and>
   get_api_key ascii_ops (credential_world (Inl (KeyringError ''locked'')) Map.empty) (PInt 7) =
     Inl (AssertionError ''service_name must be a non-empty string'') \<and>
   get_api_key ascii_ops (credential_world (Inl (KeyringError ''locked'')) Map.empty) PNone =
     Inl (AssertionError ''service_name must be a non-empty string'')"
proof -
  let ?w = "credential_world (Inl (KeyringError ''locked'')) Map.empty"
  have a: "\<forall>s. PStr [] = PStr s \<longrightarrow> s = []" by simp
  have b: "\<forall>s. PInt 7 = PStr s \<longrightarrow> s = []" by simp
  have c: "\<forall>s. PNone = PStr s \<longrightarrow> s = []" by simp
  from get_api_key_rejects_malformed_argument[OF a, of ascii_ops ?w]
  have 1: "get_api_key ascii_ops ?w (PStr []) = Inl (AssertionError ''service_name must be a non-empty string'')" ..
  from get_api_key_rejects_malformed_argument[OF b, of ascii_ops ?w]
  have 2: "get_api_key ascii_ops ?w (PInt 7) = Inl (AssertionError ''service_name must be a non-empty string'')" ..
  from get_api_key_rejects_malformed_argument[OF c, of ascii_ops ?w]
  have 3: "get_api_key ascii_ops ?w PNone = Inl (AssertionError ''service_name must be a non-empty string'')" ..
  from 1 2 3 show ?thesis by (intro conjI)
qed

end
